theory Spec2Isabelle
  imports Main "HOL-Library.Word" "HOL-Library.Signed_Division" "HOL-Library.List_Lexorder"
begin

unbundle bit_operations_syntax

section \<open>Go values\<close>

text \<open>
  Go's \<open>byte\<close>, \<open>uint16\<close>, \<open>uint32\<close> and \<open>uint64\<close> are words of that width and a
  \<open>[]byte\<close> is a list of bytes. A Go \<open>string\<close> is a list of 8-bit characters. The
  strings the wallet code produces are ASCII, and \<open>TrimSpace\<close> and \<open>ToLower\<close> below are
  what the functions of Go's \<open>strings\<close> package do on ASCII text; multi-byte UTF-8
  sequences are outside this model. Go's \<open>int\<close> is modelled by \<open>int\<close> or \<open>nat\<close>: the
  \<open>int\<close>s of this code are positions in slices.
\<close>

type_synonym byte = "8 word"
type_synonym uint16 = "16 word"
type_synonym uint32 = "32 word"
type_synonym uint64 = "64 word"

definition isSpace :: "char \<Rightarrow> bool" where
  \<comment> \<open>the ASCII white space of \<open>unicode.IsSpace\<close>: tab, LF, VT, FF, CR and space\<close>
  "isSpace c = (c = CHR 0x09 \<or> c = CHR 0x0A \<or> c = CHR 0x0B \<or> c = CHR 0x0C
                \<or> c = CHR 0x0D \<or> c = CHR 0x20)"

definition TrimSpace :: "string \<Rightarrow> string" where
  "TrimSpace s = rev (dropWhile isSpace (rev (dropWhile isSpace s)))"

definition toLowerChar :: "char \<Rightarrow> char" where
  \<comment> \<open>\<open>if 'A' <= c && c <= 'Z' { c += 'a' - 'A' }\<close>\<close>
  "toLowerChar c =
     (let n = (of_char c :: nat) in if 65 \<le> n \<and> n \<le> 90 then char_of (n + 32) else c)"

definition ToLower :: "string \<Rightarrow> string" where
  "ToLower s = map toLowerChar s"


text \<open>
  \<open>strings.Split(s, sep)\<close> for a separator of one character, the only kind the code
  uses: the pieces between the separators, one piece more than there are separators,
  and the single piece \<open>""\<close> for the empty string.
\<close>

fun Split :: "string \<Rightarrow> char \<Rightarrow> string list" where
  "Split [] sep = [[]]"
| "Split (c # cs) sep =
     (if c = sep then [] # Split cs sep
      else (case Split cs sep of [] \<Rightarrow> [[c]] | w # ws \<Rightarrow> (c # w) # ws))"

text \<open>The lines of a text joined by a separator character (\<open>strings.Join\<close>).\<close>

fun Join :: "string list \<Rightarrow> char \<Rightarrow> string" where
  "Join [] sep = []"
| "Join [w] sep = w"
| "Join (w # ws) sep = w @ sep # Join ws sep"

section \<open>The package \<open>encoding/hex\<close>\<close>

datatype hex_error = InvalidByteError char | ErrLength

definition fromHexChar :: "char \<Rightarrow> byte option" where
  "fromHexChar c =
     (let n = (of_char c :: nat) in
      if 48 \<le> n \<and> n \<le> 57 then Some (of_nat (n - 48))
      else if 97 \<le> n \<and> n \<le> 102 then Some (of_nat (n - 97 + 10))
      else if 65 \<le> n \<and> n \<le> 70 then Some (of_nat (n - 65 + 10))
      else None)"

text \<open>
  \<open>hex.DecodeString\<close> reads two characters a byte, reports the first character that is
  no hexadecimal digit and, for a string of odd length with digits only,
  \<open>ErrLength\<close>. The bytes it returns beside an error are dropped by its callers here.
\<close>

fun hex_DecodeString :: "string \<Rightarrow> hex_error + byte list" where
  "hex_DecodeString [] = Inr []"
| "hex_DecodeString [p] =
     (case fromHexChar p of None \<Rightarrow> Inl (InvalidByteError p) | Some a \<Rightarrow> Inl ErrLength)"
| "hex_DecodeString (p # q # rest) =
     (case fromHexChar p of
        None \<Rightarrow> Inl (InvalidByteError p)
      | Some a \<Rightarrow>
          (case fromHexChar q of
             None \<Rightarrow> Inl (InvalidByteError q)
           | Some b \<Rightarrow>
               (case hex_DecodeString rest of
                  Inl e \<Rightarrow> Inl e
                | Inr bs \<Rightarrow> Inr ((push_bit 4 a OR b) # bs))))"

definition hextable :: string where
  "hextable = ''0123456789abcdef''"

definition hex_EncodeToString :: "byte list \<Rightarrow> string" where
  "hex_EncodeToString src =
     concat (map (\<lambda>v. [hextable ! unat (drop_bit 4 v), hextable ! unat (v AND 0x0f)]) src)"

section \<open>The package \<open>crypto/sha256\<close>\<close>

text \<open>\<open>sha256.Sum256\<close> is SHA-256 of FIPS 180-4; the names follow \<open>sha256block.go\<close>.\<close>

definition sha256_K :: "uint32 list" where
  "sha256_K = [
    0x428A2F98, 0x71374491, 0xB5C0FBCF, 0xE9B5DBA5, 0x3956C25B, 0x59F111F1, 0x923F82A4, 0xAB1C5ED5,
    0xD807AA98, 0x12835B01, 0x243185BE, 0x550C7DC3, 0x72BE5D74, 0x80DEB1FE, 0x9BDC06A7, 0xC19BF174,
    0xE49B69C1, 0xEFBE4786, 0x0FC19DC6, 0x240CA1CC, 0x2DE92C6F, 0x4A7484AA, 0x5CB0A9DC, 0x76F988DA,
    0x983E5152, 0xA831C66D, 0xB00327C8, 0xBF597FC7, 0xC6E00BF3, 0xD5A79147, 0x06CA6351, 0x14292967,
    0x27B70A85, 0x2E1B2138, 0x4D2C6DFC, 0x53380D13, 0x650A7354, 0x766A0ABB, 0x81C2C92E, 0x92722C85,
    0xA2BFE8A1, 0xA81A664B, 0xC24B8B70, 0xC76C51A3, 0xD192E819, 0xD6990624, 0xF40E3585, 0x106AA070,
    0x19A4C116, 0x1E376C08, 0x2748774C, 0x34B0BCB5, 0x391C0CB3, 0x4ED8AA4A, 0x5B9CCA4F, 0x682E6FF3,
    0x748F82EE, 0x78A5636F, 0x84C87814, 0x8CC70208, 0x90BEFFFA, 0xA4506CEB, 0xBEF9A3F7, 0xC67178F2]"

definition sha256_init :: "uint32 list" where
  "sha256_init = [0x6A09E667, 0xBB67AE85, 0x3C6EF372, 0xA54FF53A,
                  0x510E527F, 0x9B05688C, 0x1F83D9AB, 0x5BE0CD19]"

definition be32 :: "byte list \<Rightarrow> uint32" where
  \<comment> \<open>\<open>uint32(p[j])<<24 | uint32(p[j+1])<<16 | uint32(p[j+2])<<8 | uint32(p[j+3])\<close>\<close>
  "be32 p = push_bit 24 (ucast (p ! 0)) OR push_bit 16 (ucast (p ! 1))
            OR push_bit 8 (ucast (p ! 2)) OR ucast (p ! 3)"

definition put32 :: "uint32 \<Rightarrow> byte list" where
  "put32 v = [ucast (drop_bit 24 v), ucast (drop_bit 16 v), ucast (drop_bit 8 v), ucast v]"

definition put64 :: "uint64 \<Rightarrow> byte list" where
  "put64 v = map (\<lambda>i. ucast (drop_bit (8 * (7 - i)) v)) [0..<8]"

fun sha256_expand :: "nat \<Rightarrow> uint32 list \<Rightarrow> uint32 list" where
  \<comment> \<open>the loop \<open>for i := 16; i < 64; i++\<close> that fills \<open>w\<close>, with \<open>i = length w\<close>\<close>
  "sha256_expand 0 w = w"
| "sha256_expand (Suc n) w =
     (let i = length w;
          v1 = w ! (i - 2);
          t1 = word_rotr 17 v1 XOR word_rotr 19 v1 XOR drop_bit 10 v1;
          v2 = w ! (i - 15);
          t2 = word_rotr 7 v2 XOR word_rotr 18 v2 XOR drop_bit 3 v2
      in sha256_expand n (w @ [t1 + w ! (i - 7) + t2 + w ! (i - 16)]))"

type_synonym sha256_regs =
  "uint32 \<times> uint32 \<times> uint32 \<times> uint32 \<times> uint32 \<times> uint32 \<times> uint32 \<times> uint32"

definition sha256_round :: "sha256_regs \<Rightarrow> uint32 \<times> uint32 \<Rightarrow> sha256_regs" where
  "sha256_round r kw =
     (case r of (a, b, c, d, e, f, g, h) \<Rightarrow>
        (let t1 = h + (word_rotr 6 e XOR word_rotr 11 e XOR word_rotr 25 e)
                    + ((e AND f) XOR (NOT e AND g)) + fst kw + snd kw;
             t2 = (word_rotr 2 a XOR word_rotr 13 a XOR word_rotr 22 a)
                  + ((a AND b) XOR (a AND c) XOR (b AND c))
         in (t1 + t2, a, b, c, d + t1, e, f, g)))"

definition sha256_block :: "uint32 list \<Rightarrow> byte list \<Rightarrow> uint32 list" where
  \<comment> \<open>one 64-byte chunk \<open>p\<close> folded into the digest \<open>h\<close>\<close>
  "sha256_block h p =
     (let w = sha256_expand 48 (map (\<lambda>i. be32 (take 4 (drop (4 * i) p))) [0..<16]);
          r0 = (h ! 0, h ! 1, h ! 2, h ! 3, h ! 4, h ! 5, h ! 6, h ! 7)
      in case foldl sha256_round r0 (zip sha256_K w) of (a, b, c, d, e, f, g, h') \<Rightarrow>
           [h ! 0 + a, h ! 1 + b, h ! 2 + c, h ! 3 + d, h ! 4 + e, h ! 5 + f, h ! 6 + g, h ! 7 + h'])"

fun sha256_blocks :: "nat \<Rightarrow> uint32 list \<Rightarrow> byte list \<Rightarrow> uint32 list" where
  \<comment> \<open>\<open>for len(p) >= chunk\<close>, the number of chunks counted down\<close>
  "sha256_blocks 0 h p = h"
| "sha256_blocks (Suc n) h p = sha256_blocks n (sha256_block h (take 64 p)) (drop 64 p)"

definition sha256_pad :: "nat \<Rightarrow> byte list" where
  \<comment> \<open>the padding \<open>checkSum\<close> writes after \<open>len\<close> bytes: \<open>0x80\<close>, zeros up to 56 modulo
      64, and the length in bits as a big-endian \<open>uint64\<close>\<close>
  "sha256_pad len =
     (let t = (if len mod 64 < 56 then 56 - len mod 64 else 64 + 56 - len mod 64)
      in 0x80 # replicate (t - 1) 0 @ put64 (push_bit 3 (of_nat len)))"

definition Sum256 :: "byte list \<Rightarrow> byte list" where
  "Sum256 data =
     (let p = data @ sha256_pad (length data)
      in concat (map put32 (sha256_blocks (length p div 64) sha256_init p)))"

section \<open>The word list\<close>

text \<open>
  The constant \<open>AlternatingWords\<close> is a raw string literal of 512 lines, one word each,
  with no line break after the last word: the lines below joined by \<open>"\n"\<close>.
\<close>

definition AlternatingWords_lines :: "string list" where
  "AlternatingWords_lines = [
    ''aardvark'',
    ''adroitness'',
    ''absurd'',
    ''adviser'',
    ''accrue'',
    ''aftermath'',
    ''acme'',
    ''aggregate'',
    ''adrift'',
    ''alkali'',
    ''adult'',
    ''almighty'',
    ''afflict'',
    ''amulet'',
    ''ahead'',
    ''amusement'',
    ''aimless'',
    ''antenna'',
    ''Algol'',
    ''applicant'',
    ''allow'',
    ''Apollo'',
    ''alone'',
    ''armistice'',
    ''ammo'',
    ''article'',
    ''ancient'',
    ''asteroid'',
    ''apple'',
    ''Atlantic'',
    ''artist'',
    ''atmosphere'',
    ''assume'',
    ''autopsy'',
    ''Athens'',
    ''Babylon'',
    ''atlas'',
    ''backwater'',
    ''Aztec'',
    ''barbecue'',
    ''baboon'',
    ''belowground'',
    ''backfield'',
    ''bifocals'',
    ''backward'',
    ''bodyguard'',
    ''banjo'',
    ''bookseller'',
    ''beaming'',
    ''borderline'',
    ''bedlamp'',
    ''bottomless'',
    ''beehive'',
    ''Bradbury'',
    ''beeswax'',
    ''bravado'',
    ''befriend'',
    ''Brazilian'',
    ''Belfast'',
    ''breakaway'',
    ''berserk'',
    ''Burlington'',
    ''billiard'',
    ''businessman'',
    ''bison'',
    ''butterfat'',
    ''blackjack'',
    ''Camelot'',
    ''blockade'',
    ''candidate'',
    ''blowtorch'',
    ''cannonball'',
    ''bluebird'',
    ''Capricorn'',
    ''bombast'',
    ''caravan'',
    ''bookshelf'',
    ''caretaker'',
    ''brackish'',
    ''celebrate'',
    ''breadline'',
    ''cellulose'',
    ''breakup'',
    ''certify'',
    ''brickyard'',
    ''chambermaid'',
    ''briefcase'',
    ''Cherokee'',
    ''Burbank'',
    ''Chicago'',
    ''button'',
    ''clergyman'',
    ''buzzard'',
    ''coherence'',
    ''cement'',
    ''combustion'',
    ''chairlift'',
    ''commando'',
    ''chatter'',
    ''company'',
    ''checkup'',
    ''component'',
    ''chisel'',
    ''concurrent'',
    ''choking'',
    ''confidence'',
    ''chopper'',
    ''conformist'',
    ''Christmas'',
    ''congregate'',
    ''clamshell'',
    ''consensus'',
    ''classic'',
    ''consulting'',
    ''classroom'',
    ''corporate'',
    ''cleanup'',
    ''corrosion'',
    ''clockwork'',
    ''councilman'',
    ''cobra'',
    ''crossover'',
    ''commence'',
    ''crucifix'',
    ''concert'',
    ''cumbersome'',
    ''cowbell'',
    ''customer'',
    ''crackdown'',
    ''Dakota'',
    ''cranky'',
    ''decadence'',
    ''crowfoot'',
    ''December'',
    ''crucial'',
    ''decimal'',
    ''crumpled'',
    ''designing'',
    ''crusade'',
    ''detector'',
    ''cubic'',
    ''detergent'',
    ''dashboard'',
    ''determine'',
    ''deadbolt'',
    ''dictator'',
    ''deckhand'',
    ''dinosaur'',
    ''dogsled'',
    ''direction'',
    ''dragnet'',
    ''disable'',
    ''drainage'',
    ''disbelief'',
    ''dreadful'',
    ''disruptive'',
    ''drifter'',
    ''distortion'',
    ''dropper'',
    ''document'',
    ''drumbeat'',
    ''embezzle'',
    ''drunken'',
    ''enchanting'',
    ''Dupont'',
    ''enrollment'',
    ''dwelling'',
    ''enterprise'',
    ''eating'',
    ''equation'',
    ''edict'',
    ''equipment'',
    ''egghead'',
    ''escapade'',
    ''eightball'',
    ''Eskimo'',
    ''endorse'',
    ''everyday'',
    ''endow'',
    ''examine'',
    ''enlist'',
    ''existence'',
    ''erase'',
    ''exodus'',
    ''escape'',
    ''fascinate'',
    ''exceed'',
    ''filament'',
    ''eyeglass'',
    ''finicky'',
    ''eyetooth'',
    ''forever'',
    ''facial'',
    ''fortitude'',
    ''fallout'',
    ''frequency'',
    ''flagpole'',
    ''gadgetry'',
    ''flatfoot'',
    ''Galveston'',
    ''flytrap'',
    ''getaway'',
    ''fracture'',
    ''glossary'',
    ''framework'',
    ''gossamer'',
    ''freedom'',
    ''graduate'',
    ''frighten'',
    ''gravity'',
    ''gazelle'',
    ''guitarist'',
    ''Geiger'',
    ''hamburger'',
    ''glitter'',
    ''Hamilton'',
    ''glucose'',
    ''handiwork'',
    ''goggles'',
    ''hazardous'',
    ''goldfish'',
    ''headwaters'',
    ''gremlin'',
    ''hemisphere'',
    ''guidance'',
    ''hesitate'',
    ''hamlet'',
    ''hideaway'',
    ''highchair'',
    ''holiness'',
    ''hockey'',
    ''hurricane'',
    ''indoors'',
    ''hydraulic'',
    ''indulge'',
    ''impartial'',
    ''inverse'',
    ''impetus'',
    ''involve'',
    ''inception'',
    ''island'',
    ''indigo'',
    ''jawbone'',
    ''inertia'',
    ''keyboard'',
    ''infancy'',
    ''kickoff'',
    ''inferno'',
    ''kiwi'',
    ''informant'',
    ''klaxon'',
    ''insincere'',
    ''locale'',
    ''insurgent'',
    ''lockup'',
    ''integrate'',
    ''merit'',
    ''intention'',
    ''minnow'',
    ''inventive'',
    ''miser'',
    ''Istanbul'',
    ''Mohawk'',
    ''Jamaica'',
    ''mural'',
    ''Jupiter'',
    ''music'',
    ''leprosy'',
    ''necklace'',
    ''letterhead'',
    ''Neptune'',
    ''liberty'',
    ''newborn'',
    ''maritime'',
    ''nightbird'',
    ''matchmaker'',
    ''Oakland'',
    ''maverick'',
    ''obtuse'',
    ''Medusa'',
    ''offload'',
    ''megaton'',
    ''optic'',
    ''microscope'',
    ''orca'',
    ''microwave'',
    ''payday'',
    ''midsummer'',
    ''peachy'',
    ''millionaire'',
    ''pheasant'',
    ''miracle'',
    ''physique'',
    ''misnomer'',
    ''playhouse'',
    ''molasses'',
    ''Pluto'',
    ''molecule'',
    ''preclude'',
    ''Montana'',
    ''prefer'',
    ''monument'',
    ''preshrunk'',
    ''mosquito'',
    ''printer'',
    ''narrative'',
    ''prowler'',
    ''nebula'',
    ''pupil'',
    ''newsletter'',
    ''puppy'',
    ''Norwegian'',
    ''python'',
    ''October'',
    ''quadrant'',
    ''Ohio'',
    ''quiver'',
    ''onlooker'',
    ''quota'',
    ''opulent'',
    ''ragtime'',
    ''Orlando'',
    ''ratchet'',
    ''outfielder'',
    ''rebirth'',
    ''Pacific'',
    ''reform'',
    ''pandemic'',
    ''regain'',
    ''Pandora'',
    ''reindeer'',
    ''paperweight'',
    ''rematch'',
    ''paragon'',
    ''repay'',
    ''paragraph'',
    ''retouch'',
    ''paramount'',
    ''revenge'',
    ''passenger'',
    ''reward'',
    ''pedigree'',
    ''rhythm'',
    ''Pegasus'',
    ''ribcage'',
    ''penetrate'',
    ''ringbolt'',
    ''perceptive'',
    ''robust'',
    ''performance'',
    ''rocker'',
    ''pharmacy'',
    ''ruffled'',
    ''phonetic'',
    ''sailboat'',
    ''photograph'',
    ''sawdust'',
    ''pioneer'',
    ''scallion'',
    ''pocketful'',
    ''scenic'',
    ''politeness'',
    ''scorecard'',
    ''positive'',
    ''Scotland'',
    ''potato'',
    ''seabird'',
    ''processor'',
    ''select'',
    ''provincial'',
    ''sentence'',
    ''proximate'',
    ''shadow'',
    ''puberty'',
    ''shamrock'',
    ''publisher'',
    ''showgirl'',
    ''pyramid'',
    ''skullcap'',
    ''quantity'',
    ''skydive'',
    ''racketeer'',
    ''slingshot'',
    ''rebellion'',
    ''slowdown'',
    ''recipe'',
    ''snapline'',
    ''recover'',
    ''snapshot'',
    ''repellent'',
    ''snowcap'',
    ''replica'',
    ''snowslide'',
    ''reproduce'',
    ''solo'',
    ''resistor'',
    ''southward'',
    ''responsive'',
    ''soybean'',
    ''retraction'',
    ''spaniel'',
    ''retrieval'',
    ''spearhead'',
    ''retrospect'',
    ''spellbind'',
    ''revenue'',
    ''spheroid'',
    ''revival'',
    ''spigot'',
    ''revolver'',
    ''spindle'',
    ''sandalwood'',
    ''spyglass'',
    ''sardonic'',
    ''stagehand'',
    ''Saturday'',
    ''stagnate'',
    ''savagery'',
    ''stairway'',
    ''scavenger'',
    ''standard'',
    ''sensation'',
    ''stapler'',
    ''sociable'',
    ''steamship'',
    ''souvenir'',
    ''sterling'',
    ''specialist'',
    ''stockman'',
    ''speculate'',
    ''stopwatch'',
    ''stethoscope'',
    ''stormy'',
    ''stupendous'',
    ''sugar'',
    ''supportive'',
    ''surmount'',
    ''surrender'',
    ''suspense'',
    ''suspicious'',
    ''sweatband'',
    ''sympathy'',
    ''swelter'',
    ''tambourine'',
    ''tactics'',
    ''telephone'',
    ''talon'',
    ''therapist'',
    ''tapeworm'',
    ''tobacco'',
    ''tempest'',
    ''tolerance'',
    ''tiger'',
    ''tomorrow'',
    ''tissue'',
    ''torpedo'',
    ''tonic'',
    ''tradition'',
    ''topmost'',
    ''travesty'',
    ''tracker'',
    ''trombonist'',
    ''transit'',
    ''truncated'',
    ''trauma'',
    ''typewriter'',
    ''treadmill'',
    ''ultimate'',
    ''Trojan'',
    ''undaunted'',
    ''trouble'',
    ''underfoot'',
    ''tumor'',
    ''unicorn'',
    ''tunnel'',
    ''unify'',
    ''tycoon'',
    ''universe'',
    ''uncut'',
    ''unravel'',
    ''unearth'',
    ''upcoming'',
    ''unwind'',
    ''vacancy'',
    ''uproot'',
    ''vagabond'',
    ''upset'',
    ''vertigo'',
    ''upshot'',
    ''Virginia'',
    ''vapor'',
    ''visitor'',
    ''village'',
    ''vocalist'',
    ''virus'',
    ''voyager'',
    ''Vulcan'',
    ''warranty'',
    ''waffle'',
    ''Waterloo'',
    ''wallet'',
    ''whimsical'',
    ''watchword'',
    ''Wichita'',
    ''wayside'',
    ''Wilmington'',
    ''willow'',
    ''Wyoming'',
    ''woodlark'',
    ''yesteryear'',
    ''Zulu'',
    ''Yucatan'']"

definition AlternatingWords :: string where
  "AlternatingWords = Join AlternatingWords_lines (CHR 0x0A)"

definition wordList :: "string list" where
  "wordList = Split AlternatingWords (CHR 0x0A)"

text \<open>
  \<open>init\<close> fills \<open>wordIndexes\<close> with the words in order, each under its trimmed
  lower-case form; a later word would replace an earlier one with the same key.
\<close>

fun init_loop :: "nat \<Rightarrow> string list \<Rightarrow> (string \<rightharpoonup> uint16) \<Rightarrow> (string \<rightharpoonup> uint16)" where
  "init_loop i [] m = m"
| "init_loop i (word # rest) m =
     init_loop (Suc i) rest (m(ToLower (TrimSpace word) \<mapsto> of_nat i))"

definition wordIndexes :: "string \<rightharpoonup> uint16" where
  "wordIndexes = init_loop 0 wordList Map.empty"

definition PGPWordList :: "string list" where
  "PGPWordList = wordList"

section \<open>The mnemonic codec\<close>

text \<open>
  A run-time panic of Go (here: an index that is not below the length of the slice) is
  a value of its own. An \<open>error\<close> is what \<open>errors.E(op, kind, err)\<close> of
  \<open>dcrwallet/errors\<close> builds: the operation, the kind and the wrapped cause; the
  formatted messages of \<open>errors.Errorf\<close> are constructors that keep their arguments.
\<close>

datatype panic = IndexOutOfRange nat nat

datatype kind = Encoding

datatype cause =
    NotInWordList string            \<comment> \<open>\<open>word '%v' is not in the PGP word list\<close>\<close>
  | NotValidAtPosition string nat   \<comment> \<open>\<open>word '%v' is not valid at position %v, check for missing words\<close>\<close>
  | HexError hex_error              \<comment> \<open>the error of \<open>hex.DecodeString\<close>\<close>
  | ChecksumMismatch                \<comment> \<open>\<open>checksum mismatch\<close>\<close>
  | ErrInvalidSeedLen               \<comment> \<open>\<open>hdkeychain.ErrInvalidSeedLen\<close>\<close>

datatype error = Err cause | E string kind error | Panicked panic

text \<open>
  The seed lengths of \<open>btcutil/hdkeychain\<close>: \<open>MinSeedBytes = 16\<close> (128 bits) and
  \<open>MaxSeedBytes = 64\<close> (512 bits).
\<close>

definition MinSeedBytes :: nat where "MinSeedBytes = 16"
definition MaxSeedBytes :: nat where "MaxSeedBytes = 64"

definition checksumByte :: "byte list \<Rightarrow> byte" where
  "checksumByte data = (let intermediateHash = Sum256 data in Sum256 intermediateHash ! 0)"

text \<open>
  \<open>ByteToMnemonic\<close> indexes \<open>wordList\<close> with a \<open>uint16\<close>; Go panics when the index is
  not below the length of the slice. \<open>index%2\<close> is Go's remainder, which truncates
  towards zero (\<open>smod\<close>).
\<close>

definition ByteToMnemonic :: "byte \<Rightarrow> int \<Rightarrow> panic + string" where
  "ByteToMnemonic b index =
     (let bb = (ucast b :: uint16) * 2;
          bb = (if index smod 2 \<noteq> 0 then bb + 1 else bb)
      in if unat bb < length wordList then Inr (wordList ! unat bb)
         else Inl (IndexOutOfRange (unat bb) (length wordList)))"

text \<open>The loop of \<open>EncodeMnemonic\<close> over \<open>seed\<close>, with the position \<open>i\<close> and the buffer.\<close>

fun EncodeMnemonic_loop :: "byte list \<Rightarrow> int \<Rightarrow> string \<Rightarrow> panic + string" where
  "EncodeMnemonic_loop [] i buf = Inr buf"
| "EncodeMnemonic_loop (b # bs) i buf =
     (let buf = (if i \<noteq> 0 then buf @ '' '' else buf)
      in case ByteToMnemonic b i of
           Inl p \<Rightarrow> Inl p
         | Inr w \<Rightarrow> EncodeMnemonic_loop bs (i + 1) (buf @ w))"

definition EncodeMnemonic :: "byte list \<Rightarrow> panic + string" where
  "EncodeMnemonic seed =
     (case EncodeMnemonic_loop seed 0 [] of
        Inl p \<Rightarrow> Inl p
      | Inr buf \<Rightarrow>
          (let checksum = checksumByte seed;
               buf = buf @ '' ''
           in case ByteToMnemonic checksum (int (length seed)) of
                Inl p \<Rightarrow> Inl p
              | Inr w \<Rightarrow> Inr (buf @ w)))"

definition op_DecodeMnemonics :: string where
  "op_DecodeMnemonics = ''pgpwordlist.DecodeMnemonics''"

definition op_DecodeUserInput :: string where
  "op_DecodeUserInput = ''walletseed.DecodeUserInput''"

text \<open>
  The loop of \<open>DecodeMnemonics\<close>: \<open>decoded\<close> is the slice of \<open>len(words)\<close> bytes and
  \<open>idx\<close> the next position to write.
\<close>

fun DecodeMnemonics_loop :: "string list \<Rightarrow> byte list \<Rightarrow> nat \<Rightarrow> error + byte list \<times> nat" where
  "DecodeMnemonics_loop [] decoded idx = Inr (decoded, idx)"
| "DecodeMnemonics_loop (w0 # ws) decoded idx =
     (let w = TrimSpace w0 in
      if w = [] then DecodeMnemonics_loop ws decoded idx
      else
        (case wordIndexes (ToLower w) of
           None \<Rightarrow> Inl (E op_DecodeMnemonics Encoding (Err (NotInWordList w)))
         | Some b \<Rightarrow>
             if unat (b mod 2) \<noteq> idx mod 2
             then Inl (E op_DecodeMnemonics Encoding (Err (NotValidAtPosition w idx)))
             else if idx < length decoded
             then DecodeMnemonics_loop ws (decoded[idx := ucast (b div 2)]) (idx + 1)
             else Inl (Panicked (IndexOutOfRange idx (length decoded)))))"

definition DecodeMnemonics :: "string list \<Rightarrow> error + byte list" where
  "DecodeMnemonics words =
     (case DecodeMnemonics_loop words (replicate (length words) 0) 0 of
        Inl e \<Rightarrow> Inl e
      | Inr (decoded, idx) \<Rightarrow> Inr (take idx decoded))"

text \<open>
  \<open>DecodeUserInput\<close> in three steps: the \<open>switch\<close> on the number of words, which
  yields the seed or returns an error; the check of the length of the seed; and the
  whole function, which splits the trimmed input at the spaces first.
\<close>

definition DecodeUserInput_switch :: "string list \<Rightarrow> error + byte list" where
  "DecodeUserInput_switch words =
     (if length words = 1 then
        (case hex_DecodeString (words ! 0) of
           Inl err \<Rightarrow> Inl (E op_DecodeUserInput Encoding (Err (HexError err)))
         | Inr seed \<Rightarrow> Inr seed)
      else if length words > 1 then
        (case DecodeMnemonics words of
           Inl (Panicked p) \<Rightarrow> Inl (Panicked p)
         | Inl err \<Rightarrow> Inl (E op_DecodeUserInput Encoding err)
         | Inr decoded \<Rightarrow>
             if length decoded < 2 then Inr []
             else if checksumByte (take (length decoded - 1) decoded)
                     \<noteq> decoded ! (length decoded - 1)
             then Inl (E op_DecodeUserInput Encoding (Err ChecksumMismatch))
             else Inr (take (length decoded - 1) decoded))
      else Inr [])"

definition DecodeUserInput_words :: "string list \<Rightarrow> error + byte list" where
  "DecodeUserInput_words words =
     (case DecodeUserInput_switch words of
        Inl e \<Rightarrow> Inl e
      | Inr seed \<Rightarrow>
          if length seed < MinSeedBytes \<or> length seed > MaxSeedBytes
          then Inl (E op_DecodeUserInput Encoding (Err ErrInvalidSeedLen))
          else Inr seed)"

definition DecodeUserInput :: "string \<Rightarrow> error + byte list" where
  "DecodeUserInput input = DecodeUserInput_words (Split (TrimSpace input) (CHR '' ''))"

section \<open>The seed vault\<close>

text \<open>
  The vault calls \<open>scrypt.Key\<close> (\<open>golang.org/x/crypto/scrypt\<close>), \<open>nacl.Load\<close> and
  \<open>secretbox.EasySeal\<close>/\<open>EasyOpen\<close> (\<open>kevinburke/nacl\<close>). These library functions are
  modelled with their checks and with the layout of the box; the three number-crunching
  functions beneath them are parameters, each as the byte it yields at a position:
  the key stream that \<open>scrypt\<close> derives, the XSalsa20 key stream, and the Poly1305
  authenticator of a message under a one-time key.
\<close>

record primitives =
  scrypt_stream :: "byte list \<Rightarrow> byte list \<Rightarrow> int \<Rightarrow> int \<Rightarrow> int \<Rightarrow> nat \<Rightarrow> byte"
  xsalsa20 :: "byte list \<Rightarrow> byte list \<Rightarrow> nat \<Rightarrow> byte"
  poly1305 :: "byte list \<Rightarrow> byte list \<Rightarrow> nat \<Rightarrow> byte"

datatype kdf_error =
    ScryptNotPowerOfTwo        \<comment> \<open>\<open>scrypt: N must be > 1 and a power of 2\<close>\<close>
  | ScryptTooLarge             \<comment> \<open>\<open>scrypt: parameters are too large\<close>\<close>
  | IncorrectHexKeyLength nat  \<comment> \<open>\<open>nacl: incorrect hex key length\<close>\<close>
  | HexKeyError hex_error

datatype secretbox_error = MessageTooShort | CouldNotDecrypt

datatype wallet_error =
    ErrInvalidPassphrase       \<comment> \<open>\<open>errors.New(ErrInvalidPassphrase)\<close>\<close>
  | DerivationError kdf_error  \<comment> \<open>an error of \<open>naclLoadFromPass\<close>, returned as it is\<close>

definition maxInt :: int where
  "maxInt = 2 ^ 63 - 1"

definition scrypt_Key ::
  "primitives \<Rightarrow> byte list \<Rightarrow> byte list \<Rightarrow> int \<Rightarrow> int \<Rightarrow> int \<Rightarrow> nat \<Rightarrow> kdf_error + byte list" where
  "scrypt_Key prim password salt N r p keyLen =
     (if N \<le> 1 \<or> N AND (N - 1) \<noteq> 0 then Inl ScryptNotPowerOfTwo
      else if (r * p) mod 2 ^ 64 \<ge> 2 ^ 30 \<or> r > maxInt sdiv 128 sdiv p \<or> r > maxInt sdiv 256
              \<or> N > maxInt sdiv 128 sdiv r
      then Inl ScryptTooLarge
      else Inr (map (scrypt_stream prim password salt N r p) [0..<keyLen]))"

text \<open>
  Modelled from the spec: \<open>EncodeHex\<close> is a function of this package that is not among
  the source files. The derivation of the spec turns the 32 bytes of the derivation
  function into the key, and \<open>nacl.Load\<close> reads a key in hexadecimal, so \<open>EncodeHex\<close>
  is the hexadecimal encoding of its argument (\<open>hex.EncodeToString\<close>).
\<close>

definition EncodeHex :: "byte list \<Rightarrow> string" where
  "EncodeHex hexBytes = hex_EncodeToString hexBytes"

definition KeySize :: nat where "KeySize = 32"
definition NonceSize :: nat where "NonceSize = 24"
definition TagSize :: nat where "TagSize = 16"

definition nacl_Load :: "string \<Rightarrow> kdf_error + byte list" where
  "nacl_Load hexkey =
     (if length hexkey \<noteq> 2 * KeySize then Inl (IncorrectHexKeyLength (length hexkey))
      else case hex_DecodeString hexkey of
             Inl err \<Rightarrow> Inl (HexKeyError err)
           | Inr keyBytes \<Rightarrow> Inr keyBytes)"

definition naclLoadFromPass :: "primitives \<Rightarrow> byte list \<Rightarrow> kdf_error + byte list" where
  "naclLoadFromPass prim pass =
     (case scrypt_Key prim pass [] (2 ^ 15) 8 1 32 of
        Inl err \<Rightarrow> Inl err
      | Inr hash \<Rightarrow> nacl_Load (EncodeHex hash))"

text \<open>
  \<open>secretbox.Seal\<close>: the first 32 bytes of the key stream are the one-time key of the
  authenticator, the message is XORed with the stream from byte 32 on, and the box
  is the 16-byte authenticator of the ciphertext followed by the ciphertext.
  \<open>secretbox.Open\<close> checks the authenticator before it decrypts.
\<close>

definition secretbox_stream :: "primitives \<Rightarrow> byte list \<Rightarrow> byte list \<Rightarrow> byte list \<Rightarrow> byte list" where
  "secretbox_stream prim key nonce msg =
     map (\<lambda>(i, m). m XOR xsalsa20 prim key nonce (32 + i)) (enumerate 0 msg)"

definition secretbox_tag :: "primitives \<Rightarrow> byte list \<Rightarrow> byte list \<Rightarrow> byte list \<Rightarrow> byte list" where
  "secretbox_tag prim key nonce ciphertext =
     (let poly1305Key = map (xsalsa20 prim key nonce) [0..<32]
      in map (poly1305 prim ciphertext poly1305Key) [0..<TagSize])"

definition secretbox_Seal :: "primitives \<Rightarrow> byte list \<Rightarrow> byte list \<Rightarrow> byte list \<Rightarrow> byte list" where
  "secretbox_Seal prim message nonce key =
     (let ciphertext = secretbox_stream prim key nonce message
      in secretbox_tag prim key nonce ciphertext @ ciphertext)"

definition secretbox_Open :: "primitives \<Rightarrow> byte list \<Rightarrow> byte list \<Rightarrow> byte list \<Rightarrow> byte list option" where
  "secretbox_Open prim box nonce key =
     (if length box < TagSize then None
      else let tag = take TagSize box; ciphertext = drop TagSize box
           in if secretbox_tag prim key nonce ciphertext \<noteq> tag then None
              else Some (secretbox_stream prim key nonce ciphertext))"

text \<open>
  \<open>EasySeal\<close> draws a nonce of 24 random bytes (here the argument \<open>nonce\<close>) and puts it
  in front of the box; \<open>EasyOpen\<close> reads it back from there.
\<close>

definition EasySeal :: "primitives \<Rightarrow> byte list \<Rightarrow> byte list \<Rightarrow> byte list \<Rightarrow> byte list" where
  "EasySeal prim nonce message key = nonce @ secretbox_Seal prim message nonce key"

definition EasyOpen :: "primitives \<Rightarrow> byte list \<Rightarrow> byte list \<Rightarrow> secretbox_error + byte list" where
  "EasyOpen prim box key =
     (if length box < NonceSize then Inl MessageTooShort
      else case secretbox_Open prim (drop NonceSize box) (take NonceSize box) key of
             None \<Rightarrow> Inl CouldNotDecrypt
           | Some decrypted \<Rightarrow> Inr decrypted)"

text \<open>The conversions \<open>[]byte(s)\<close> and \<open>string(b)\<close> keep the bytes.\<close>

definition bytes_of_string :: "string \<Rightarrow> byte list" where
  "bytes_of_string s = map (\<lambda>c. of_nat (of_char c)) s"

definition string_of_bytes :: "byte list \<Rightarrow> string" where
  "string_of_bytes b = map (\<lambda>v. char_of (unat v)) b"

text \<open>
  Both functions return a value and an error, as in Go: \<open>(nil, err)\<close> and
  \<open>("", err)\<close> on failure.
\<close>

definition encryptWalletSeed ::
  "primitives \<Rightarrow> byte list \<Rightarrow> byte list \<Rightarrow> string \<Rightarrow> byte list \<times> wallet_error option" where
  "encryptWalletSeed prim nonce pass seed =
     (case naclLoadFromPass prim pass of
        Inl err \<Rightarrow> ([], Some (DerivationError err))
      | Inr key \<Rightarrow> (EasySeal prim nonce (bytes_of_string seed) key, None))"

text \<open>
  \<open>decryptWalletSeed\<close> from the point where \<open>naclLoadFromPass\<close> has returned, as a
  function of what it returned, and the whole function.
\<close>

definition decryptWalletSeed_with ::
  "primitives \<Rightarrow> kdf_error + byte list \<Rightarrow> byte list \<Rightarrow> string \<times> wallet_error option" where
  "decryptWalletSeed_with prim loaded encryptedSeed =
     (case loaded of
        Inl err \<Rightarrow> ([], Some (DerivationError err))
      | Inr key \<Rightarrow>
          (case EasyOpen prim encryptedSeed key of
             Inl err \<Rightarrow> ([], Some ErrInvalidPassphrase)
           | Inr decryptedSeed \<Rightarrow> (string_of_bytes decryptedSeed, None)))"

definition decryptWalletSeed ::
  "primitives \<Rightarrow> byte list \<Rightarrow> byte list \<Rightarrow> string \<times> wallet_error option" where
  "decryptWalletSeed prim pass encryptedSeed =
     decryptWalletSeed_with prim (naclLoadFromPass prim pass) encryptedSeed"

section \<open>The transactional batch\<close>

text \<open>
  The storm backend is what it answers: \<open>Begin\<close> returns a transaction or an error,
  \<open>Commit\<close> and \<open>Rollback\<close> return an error or \<open>nil\<close>. A call of \<open>dbOp\<close> either returns
  an error or \<open>nil\<close>, or panics with a value. The calls made on the backend are
  recorded in order.
\<close>

datatype db_call = Begin | Rollback | Commit

datatype ('e, 'v) outcome = Returns "'e option" | Panics 'v

record ('e, 'tx) backend =
  begin_answer :: "'e + 'tx"
  commit_answer :: "'e option"
  rollback_answer :: "'e option"

text \<open>
  The deferred function reads \<open>panicked\<close> and the named result \<open>err\<close> and sets \<open>err\<close>
  when it commits; the value of \<open>dbTx.Rollback()\<close> is not used. It yields the calls
  with the one it makes and the new \<open>err\<close>.
\<close>

definition batch_deferred ::
  "('e, 'tx) backend \<Rightarrow> bool \<Rightarrow> 'e option \<Rightarrow> db_call list \<Rightarrow> db_call list \<times> 'e option" where
  "batch_deferred db panicked err calls =
     (if panicked \<or> err \<noteq> None then (calls @ [Rollback], err)
      else (calls @ [Commit], commit_answer db))"

text \<open>
  \<open>batchDbTransaction\<close>: \<open>panicked\<close> is \<open>true\<close> while \<open>dbOp\<close> runs, so the deferred
  function sees it so when \<open>dbOp\<close> panics; the panic is not recovered and goes on to
  the caller after the deferred function has run.
\<close>

definition batchDbTransaction ::
  "('e, 'tx) backend \<Rightarrow> ('tx \<Rightarrow> ('e, 'v) outcome) \<Rightarrow> db_call list \<times> ('e, 'v) outcome" where
  "batchDbTransaction db dbOp =
     (case begin_answer db of
        Inl err \<Rightarrow> ([Begin], Returns (Some err))
      | Inr dbTx \<Rightarrow>
          (case dbOp dbTx of
             Panics v \<Rightarrow> (fst (batch_deferred db True None [Begin]), Panics v)
           | Returns err \<Rightarrow>
               (case batch_deferred db False err [Begin] of
                  (calls, err') \<Rightarrow> (calls, Returns err'))))"

section \<open>Auxiliary definitions for the proofs\<close>

text \<open>
  The words of a seed as the specification lists them: the word of the byte at
  position \<open>i\<close> is the entry \<open>2 * byte + i mod 2\<close> of the word list, and the word of the
  checksum byte follows at position \<open>len(seed)\<close>.
\<close>

definition mnemonicWord :: "byte \<Rightarrow> nat \<Rightarrow> string" where
  "mnemonicWord b i = wordList ! (2 * unat b + i mod 2)"

definition mnemonicWords :: "byte list \<Rightarrow> string list" where
  "mnemonicWords seed =
     map (\<lambda>(i, b). mnemonicWord b i) (enumerate 0 (seed @ [checksumByte seed]))"

text \<open>What the loop of \<open>EncodeMnemonic\<close> writes for the byte at a position.\<close>

definition spaced :: "nat \<times> byte \<Rightarrow> string" where
  "spaced = (\<lambda>(j, b). (if j = 0 then [] else '' '') @ mnemonicWord b j)"

text \<open>The words of a phrase, and a phrase with the word at one position removed.\<close>

definition phraseWords :: "string \<Rightarrow> string list" where
  "phraseWords phrase = filter (\<lambda>w. w \<noteq> []) (Split phrase (CHR '' ''))"

definition removeWord :: "nat \<Rightarrow> string \<Rightarrow> string" where
  "removeWord i phrase =
     (let ws = Split phrase (CHR '' '') in Join (take i ws @ drop (Suc i) ws) (CHR '' ''))"

text \<open>
  That no two words of the list have the same lower-case form is shown by sorting
  them. The key of a word is the list of the low five bits of its characters, which
  \<open>ToLower\<close> does not change and which orders letters alphabetically. The words at
  even positions are in alphabetical order, and so are the words at odd positions up
  to \<open>applicant\<close> and those from \<open>Apollo\<close> on: \<open>word_classes\<close> names the class of each
  position, and \<open>word_order\<close> says from which class the next word in alphabetical
  order comes.
\<close>

datatype sel = A | B | C

fun pick :: "sel \<Rightarrow> sel list \<Rightarrow> 'a list \<Rightarrow> 'a list" where
  "pick A (A # ls) (x # xs) = x # pick A ls xs"
| "pick B (B # ls) (x # xs) = x # pick B ls xs"
| "pick C (C # ls) (x # xs) = x # pick C ls xs"
| "pick s (l # ls) (x # xs) = pick s ls xs"
| "pick s [] xs = []"
| "pick s ls [] = []"

fun weave :: "sel list \<Rightarrow> 'a list \<Rightarrow> 'a list \<Rightarrow> 'a list \<Rightarrow> 'a list" where
  "weave (A # ss) (x # xs) ys zs = x # weave ss xs ys zs"
| "weave (B # ss) xs (y # ys) zs = y # weave ss xs ys zs"
| "weave (C # ss) xs ys (z # zs) = z # weave ss xs ys zs"
| "weave ss xs ys zs = []"

definition low5 :: "char \<Rightarrow> bool list" where
  "low5 c = [digit4 c, digit3 c, digit2 c, digit1 c, digit0 c]"

definition wordKey :: "string \<Rightarrow> bool list list" where
  "wordKey w = map low5 w"

definition word_classes :: "sel list" where
  "word_classes = [
    A, B, A, B, A, B, A, B, A, B, A, B, A, B, A, B, A, B, A, B, A, C, A, C, A, C, A, C, A, C, A, C,
    A, C, A, C, A, C, A, C, A, C, A, C, A, C, A, C, A, C, A, C, A, C, A, C, A, C, A, C, A, C, A, C,
    A, C, A, C, A, C, A, C, A, C, A, C, A, C, A, C, A, C, A, C, A, C, A, C, A, C, A, C, A, C, A, C,
    A, C, A, C, A, C, A, C, A, C, A, C, A, C, A, C, A, C, A, C, A, C, A, C, A, C, A, C, A, C, A, C,
    A, C, A, C, A, C, A, C, A, C, A, C, A, C, A, C, A, C, A, C, A, C, A, C, A, C, A, C, A, C, A, C,
    A, C, A, C, A, C, A, C, A, C, A, C, A, C, A, C, A, C, A, C, A, C, A, C, A, C, A, C, A, C, A, C,
    A, C, A, C, A, C, A, C, A, C, A, C, A, C, A, C, A, C, A, C, A, C, A, C, A, C, A, C, A, C, A, C,
    A, C, A, C, A, C, A, C, A, C, A, C, A, C, A, C, A, C, A, C, A, C, A, C, A, C, A, C, A, C, A, C,
    A, C, A, C, A, C, A, C, A, C, A, C, A, C, A, C, A, C, A, C, A, C, A, C, A, C, A, C, A, C, A, C,
    A, C, A, C, A, C, A, C, A, C, A, C, A, C, A, C, A, C, A, C, A, C, A, C, A, C, A, C, A, C, A, C,
    A, C, A, C, A, C, A, C, A, C, A, C, A, C, A, C, A, C, A, C, A, C, A, C, A, C, A, C, A, C, A, C,
    A, C, A, C, A, C, A, C, A, C, A, C, A, C, A, C, A, C, A, C, A, C, A, C, A, C, A, C, A, C, A, C,
    A, C, A, C, A, C, A, C, A, C, A, C, A, C, A, C, A, C, A, C, A, C, A, C, A, C, A, C, A, C, A, C,
    A, C, A, C, A, C, A, C, A, C, A, C, A, C, A, C, A, C, A, C, A, C, A, C, A, C, A, C, A, C, A, C,
    A, C, A, C, A, C, A, C, A, C, A, C, A, C, A, C, A, C, A, C, A, C, A, C, A, C, A, C, A, C, A, C,
    A, C, A, C, A, C, A, C, A, C, A, C, A, C, A, C, A, C, A, C, A, C, A, C, A, C, A, C, A, C, A, C]"

definition word_order :: "sel list" where
  "word_order = [
    A, A, A, A, A, B, A, B, A, B, B, A, A, A, B, A, B, A, A, B, B, A, B, C, A, B, C, C, A, A, C, A,
    C, A, C, C, A, A, C, A, A, C, A, C, A, A, A, A, A, A, C, A, C, A, A, A, A, A, A, C, A, C, A, C,
    C, A, C, C, C, A, C, A, A, A, A, C, C, C, A, A, C, C, C, C, C, C, C, C, A, C, A, C, A, A, C, C,
    A, A, A, A, A, A, A, A, C, A, A, C, C, C, A, C, C, A, C, C, C, C, C, C, C, C, C, A, A, A, C, A,
    A, C, A, A, A, C, C, C, A, A, C, C, C, A, C, C, C, C, C, C, C, C, C, C, C, C, A, A, A, A, A, A,
    A, A, A, A, A, A, A, A, C, C, A, A, A, C, C, C, C, A, C, A, C, C, C, A, C, C, A, A, A, A, C, C,
    C, A, A, A, C, C, A, A, A, C, A, C, C, A, A, C, A, C, A, A, A, C, C, C, A, A, C, C, C, A, C, C,
    C, C, C, C, A, A, C, C, C, C, C, C, C, A, A, C, C, C, C, C, C, C, C, C, A, A, A, C, C, A, C, A,
    A, A, A, C, C, C, A, A, C, C, C, C, C, A, C, C, C, C, A, C, A, C, A, C, C, C, C, C, A, A, C, C,
    A, A, A, C, A, C, A, A, C, A, C, C, A, C, A, C, C, C, C, C, C, C, C, C, C, A, A, C, C, C, C, C,
    C, A, C, C, A, C, A, A, C, C, C, C, A, A, A, A, C, C, A, C, C, C, A, A, C, A, A, C, A, A, C, A,
    A, C, A, C, C, A, A, A, A, A, C, C, C, C, C, A, C, C, C, A, C, C, C, A, A, A, A, A, A, A, A, C,
    C, C, C, A, A, C, A, A, A, A, A, C, A, A, A, A, A, A, A, A, A, A, A, A, C, A, A, C, A, A, A, C,
    C, A, A, A, A, A, A, A, A, A, A, A, A, C, A, A, A, C, A, C, A, C, A, C, A, A, C, A, A, C, A, C,
    A, C, A, A, C, C, C, A, A, C, A, C, A, A, C, A, A, C, A, C, A, A, A, C, C, A, C, C, A, C, C, C,
    C, A, C, A, A, A, C, C, A, C, A, C, A, C, C, C, A, A, A, C, A, C, A, C, C, A, C, A, C, C, C, A]"

definition sorted_keys :: "string list \<Rightarrow> bool list list list" where
  "sorted_keys ws =
     (let ks = map wordKey ws
      in weave word_order (pick A word_classes ks) (pick B word_classes ks) (pick C word_classes ks))"

section \<open>Bytes and indices\<close>


lemma unat_byte_less: "unat (b :: byte) < 256"
proof -
  have "unat b < 2 ^ LENGTH(8)" by (rule unsigned_less)
  then show ?thesis by simp
qed

lemma unat_ucast_byte: "unat (ucast (b :: byte) :: uint16) = unat b"
  using unat_byte_less [of b] by (simp add: unsigned_ucast_eq take_bit_nat_eq_self)

lemma unat_bb0: "unat ((ucast (b::byte) :: uint16) * 2) = 2 * unat b"
  using unat_byte_less [of b] by (simp add: unat_word_ariths unat_ucast_byte)

lemma unat_bb1: "unat ((ucast (b::byte) :: uint16) * 2 + 1) = 2 * unat b + 1"
  using unat_byte_less [of b] by (simp add: unat_word_ariths unat_ucast_byte mod_simps)

lemma unat_index: "p < 2 \<Longrightarrow> unat (of_nat (2 * unat (b::byte) + p) :: uint16) = 2 * unat b + p"
proof -
  assume "p < 2"
  then have "2 * unat b + p < 2 ^ LENGTH(16)"
    using unat_byte_less [of b] by simp
  then show ?thesis by (simp only: unat_of_nat mod_less)
qed

lemma index_mod: "p < 2 \<Longrightarrow> unat ((of_nat (2 * unat (b::byte) + p) :: uint16) mod 2) = p"
  using unat_index [of p b] by (simp add: unat_mod)

lemma index_div: "p < 2 \<Longrightarrow> (ucast ((of_nat (2 * unat (b::byte) + p) :: uint16) div 2) :: byte) = b"
proof -
  assume p: "p < 2"
  have "unat ((of_nat (2 * unat b + p) :: uint16) div 2) = unat b"
    using unat_index [OF p, of b] p by (simp add: unat_div)
  then have "unat (ucast ((of_nat (2 * unat b + p) :: uint16) div 2) :: byte) = unat b"
    using unat_byte_less [of b] by (simp add: unsigned_ucast_eq take_bit_nat_eq_self)
  then show ?thesis by (simp add: word_unat_eq_iff)
qed

lemma smod2: "(int i smod 2 \<noteq> 0) = (i mod 2 = 1)"
  by (simp add: signed_modulo_int_def sgn_if) presburger

lemma mask4: "(0x0f :: byte) = mask 4"
  by (simp add: mask_eq_exp_minus_1)

lemma nibbles: "push_bit 4 (drop_bit 4 v) OR (v AND 0x0f) = (v :: byte)"
  unfolding mask4
  apply (rule bit_word_eqI)
  apply (simp only: bit_or_iff bit_and_iff bit_push_bit_iff bit_drop_bit_eq bit_mask_iff
        possible_bit_word)
  apply (auto simp: comp_def not_le)
  done

lemma string_round: "char_of (unat (of_nat (of_char c :: nat) :: byte)) = c"
  by (simp add: unat_of_nat)

lemma bytes_round: "(of_nat (of_char (char_of (unat (w :: byte)) ) :: nat) :: byte) = w"
  using unat_byte_less [of w] by simp

lemma nibble_lt: "unat (drop_bit 4 (v::byte)) < 16" "unat (v AND 0x0f :: byte) < 16"
  subgoal using unat_byte_less [of v] by (simp add: unat_drop_bit_eq drop_bit_eq_div unat_div)
  subgoal using word_and_le1 [of v "0x0f"] by (simp add: word_le_nat_alt)
  done

section \<open>Strings and hexadecimal\<close>


lemma Split_no_sep: "sep \<notin> set w \<Longrightarrow> Split w sep = [w]"
  by (induction w) auto

lemma Split_append_sep: "sep \<notin> set w \<Longrightarrow> Split (w @ sep # rest) sep = w # Split rest sep"
  by (induction w) auto

lemma Split_Join:
  "ws \<noteq> [] \<Longrightarrow> \<forall>w\<in>set ws. sep \<notin> set w \<Longrightarrow> Split (Join ws sep) sep = ws"
proof (induction ws sep rule: Join.induct)
  case (1 sep)
  then show ?case by simp
next
  case (2 w sep)
  then show ?case by (simp add: Split_no_sep)
next
  case (3 w v ws sep)
  then show ?case by (simp add: Split_append_sep)
qed

lemma Join_Cons: "Join (w # ws) sep = w @ concat (map ((#) sep) ws)"
  by (induction ws arbitrary: w) auto

lemma dropWhile_id: "xs = [] \<or> \<not> P (hd xs) \<Longrightarrow> dropWhile P xs = xs"
  by (cases xs) auto

lemma TrimSpace_id:
  assumes "s = [] \<or> (\<not> isSpace (hd s) \<and> \<not> isSpace (last s))"
  shows "TrimSpace s = s"
proof (cases "s = []")
  case True
  then show ?thesis by (simp add: TrimSpace_def)
next
  case False
  with assms have h: "\<not> isSpace (hd s)" and l: "\<not> isSpace (last s)" by auto
  from h have "dropWhile isSpace s = s" by (simp add: dropWhile_id)
  moreover from False l have "dropWhile isSpace (rev s) = rev s"
    by (simp add: dropWhile_id hd_rev)
  ultimately show ?thesis by (simp add: TrimSpace_def)
qed

lemma digit6_not_isSpace: "digit6 c \<Longrightarrow> \<not> isSpace c"
  by (cases c) (auto simp: isSpace_def)

lemma digit6_not_newline: "digit6 c \<Longrightarrow> c \<noteq> CHR 0x0A"
  by (cases c) auto

lemma toLowerChar_Char:
  "toLowerChar (Char b0 b1 b2 b3 b4 b5 b6 b7) =
     (if b6 \<and> \<not> b5 \<and> \<not> b7 \<and> (b0 \<or> b1 \<or> b2 \<or> b3 \<or> b4) \<and> \<not> (b4 \<and> b3 \<and> (b2 \<or> (b1 \<and> b0)))
      then Char b0 b1 b2 b3 b4 True b6 b7 else Char b0 b1 b2 b3 b4 b5 b6 b7)"
  by (cases b0; cases b1; cases b2; cases b3; cases b4; cases b5; cases b6; cases b7;
      simp add: toLowerChar_def char_of_eq_iff)

lemma low5_toLowerChar: "low5 (toLowerChar c) = low5 c"
  by (cases c) (simp add: toLowerChar_Char low5_def)

lemma wordKey_ToLower: "wordKey (ToLower w) = wordKey w"
  by (simp add: wordKey_def ToLower_def low5_toLowerChar)

lemma hex_DecodeString_length: "hex_DecodeString s = Inr bs \<Longrightarrow> length s = 2 * length bs"
  by (induction s arbitrary: bs rule: hex_DecodeString.induct)
     (auto split: option.splits sum.splits)

section \<open>Facts about the word list\<close>

lemma lines_chars: "list_all (\<lambda>w. w \<noteq> [] \<and> list_all digit6 w) AlternatingWords_lines"
  by (simp only: AlternatingWords_lines_def list.pred_inject char.sel list.distinct simp_thms)

lemma lines_length: "length AlternatingWords_lines = 512"
  by (simp add: AlternatingWords_lines_def)

lemma lines_short: "list_all (\<lambda>w. length w < 32) AlternatingWords_lines"
  by (simp add: AlternatingWords_lines_def)

lemma wordList_lines: "wordList = AlternatingWords_lines"
proof -
  have "AlternatingWords_lines \<noteq> []"
    using lines_length by auto
  moreover have "\<forall>w\<in>set AlternatingWords_lines. CHR 0x0A \<notin> set w"
    using lines_chars digit6_not_newline by (auto simp: list_all_iff)
  ultimately show ?thesis
    by (simp add: wordList_def AlternatingWords_def Split_Join)
qed

lemma length_wordList: "length wordList = 512"
  by (simp add: wordList_lines lines_length)

lemma wordList_chars:
  assumes "i < 512"
  shows "wordList ! i \<noteq> []" and "\<And>c. c \<in> set (wordList ! i) \<Longrightarrow> digit6 c"
    and "length (wordList ! i) < 32"
proof -
  have "wordList ! i \<in> set AlternatingWords_lines"
    using assms by (simp add: wordList_lines lines_length)
  then show "wordList ! i \<noteq> []" and "\<And>c. c \<in> set (wordList ! i) \<Longrightarrow> digit6 c"
    and "length (wordList ! i) < 32"
    using lines_chars lines_short by (auto simp: list_all_iff)
qed

lemma wordList_no_space:
  assumes "i < 512"
  shows "\<forall>c\<in>set (wordList ! i). \<not> isSpace c"
  using wordList_chars(2) [OF assms] digit6_not_isSpace by blast

lemma wordList_TrimSpace: "i < 512 \<Longrightarrow> TrimSpace (wordList ! i) = wordList ! i"
  using wordList_chars(1) [of i] wordList_no_space [of i]
  by (intro TrimSpace_id) (auto simp: hd_in_set)

lemma less_bool_eval:
  "(False < True) = True" "(True < False) = False" "(False < False) = False" "(True < True) = False"
  by simp_all

lemma keys_chain: "successively (<) (sorted_keys AlternatingWords_lines)"
  by (simp only: sorted_keys_def Let_def AlternatingWords_lines_def word_classes_def word_order_def
        list.map wordKey_def low5_def char.sel pick.simps weave.simps successively.simps
        Cons_less_Cons Nil_less_Cons not_less_Nil less_bool_eval list.inject simp_thms)

lemma keys_length:
  "list_all2 (\<lambda>k w. True) (sorted_keys AlternatingWords_lines) AlternatingWords_lines"
  by (simp only: sorted_keys_def Let_def AlternatingWords_lines_def word_classes_def word_order_def
        list.map wordKey_def low5_def char.sel pick.simps weave.simps list_all2_Cons list_all2_Nil
        simp_thms)

lemma set_pick: "set (pick s ls xs) \<subseteq> set xs"
  by (induction s ls xs rule: pick.induct) auto

lemma set_weave: "set (weave ss xs ys zs) \<subseteq> set xs \<union> set ys \<union> set zs"
  by (induction ss xs ys zs rule: weave.induct) auto

lemma distinct_of_sorted_sublist:
  assumes "distinct ys" and "set ys \<subseteq> set xs" and "length ys = length xs"
  shows "distinct xs"
proof -
  have "length xs = card (set ys)"
    using assms(1,3) by (simp add: distinct_card)
  also have "\<dots> \<le> card (set xs)"
    using assms(2) by (simp add: card_mono)
  finally have "card (set xs) = length xs"
    using card_length [of xs] by simp
  then show ?thesis by (rule card_distinct)
qed

lemma distinct_keys: "distinct (map wordKey AlternatingWords_lines)"
proof -
  let ?S = "sorted_keys AlternatingWords_lines"
  have "sorted_wrt (<) ?S"
    using keys_chain by (simp add: successively_conv_sorted_wrt)
  then have "distinct ?S"
    by (simp add: strict_sorted_iff)
  moreover have "set ?S \<subseteq> set (map wordKey AlternatingWords_lines)"
    unfolding sorted_keys_def Let_def using set_weave set_pick by fast
  moreover have "length ?S = length (map wordKey AlternatingWords_lines)"
    using keys_length by (simp add: list_all2_lengthD)
  ultimately show ?thesis by (rule distinct_of_sorted_sublist)
qed

lemma distinct_lower: "distinct (map (\<lambda>w. ToLower (TrimSpace w)) wordList)"
proof -
  have eq: "map (\<lambda>w. ToLower (TrimSpace w)) wordList = map ToLower wordList"
    using wordList_TrimSpace by (auto simp: in_set_conv_nth length_wordList)
  have "distinct (map wordKey (map ToLower wordList))"
    using distinct_keys by (simp add: wordKey_ToLower wordList_lines comp_def)
  then have "distinct (map ToLower wordList)"
    using distinct_map [of wordKey "map ToLower wordList"] by blast
  then show ?thesis by (simp only: eq)
qed

lemma init_loop_other:
  "k \<notin> set (map (\<lambda>w. ToLower (TrimSpace w)) ws) \<Longrightarrow> init_loop i ws m k = m k"
  by (induction ws arbitrary: i m) auto

lemma init_loop_nth:
  "distinct (map (\<lambda>w. ToLower (TrimSpace w)) ws) \<Longrightarrow> j < length ws \<Longrightarrow>
   init_loop i ws m (ToLower (TrimSpace (ws ! j))) = Some (of_nat (i + j))"
proof (induction ws arbitrary: i m j)
  case Nil
  then show ?case by simp
next
  case (Cons w ws)
  show ?case
  proof (cases j)
    case 0
    with Cons.prems show ?thesis by (simp add: init_loop_other)
  next
    case (Suc j')
    with Cons.prems Cons.IH [of j' "Suc i"] show ?thesis by simp
  qed
qed

lemma wordIndexes_nth: "i < 512 \<Longrightarrow> wordIndexes (ToLower (wordList ! i)) = Some (of_nat i)"
  using init_loop_nth [OF distinct_lower, of i 0 Map.empty]
  by (simp add: wordIndexes_def length_wordList wordList_TrimSpace)

section \<open>Encoding and decoding\<close>

lemma ByteToMnemonic_index:
  "ByteToMnemonic b index =
     Inr (wordList ! (2 * unat b + (if index smod 2 \<noteq> 0 then 1 else 0)))"
  using unat_byte_less [of b]
  by (simp add: ByteToMnemonic_def Let_def length_wordList unat_bb0 unat_bb1)

lemma ByteToMnemonic_nat: "ByteToMnemonic b (int i) = Inr (mnemonicWord b i)"
proof -
  have "(if int i smod 2 \<noteq> 0 then 1 else 0) = i mod 2"
    by (simp add: smod2)
  then show ?thesis
    by (simp only: ByteToMnemonic_index mnemonicWord_def)
qed

lemma mnemonicWord_nth: "\<exists>k<512. mnemonicWord b i = wordList ! k"
proof -
  have "2 * unat b + i mod 2 < 512"
    using unat_byte_less [of b] by (simp add: mod_less_divisor [of 2 i, THEN less_le_trans])
  then show ?thesis by (auto simp: mnemonicWord_def)
qed

lemma mnemonicWord_chars:
  "mnemonicWord b i \<noteq> []" "\<forall>c\<in>set (mnemonicWord b i). digit6 c"
  "length (mnemonicWord b i) < 32"
proof -
  from mnemonicWord_nth [of b i] obtain k where k: "k < 512" "mnemonicWord b i = wordList ! k"
    by blast
  show "mnemonicWord b i \<noteq> []" "\<forall>c\<in>set (mnemonicWord b i). digit6 c"
    "length (mnemonicWord b i) < 32"
    using wordList_chars [OF k(1)] by (simp_all add: k(2))
qed

lemma mnemonicWord_TrimSpace: "TrimSpace (mnemonicWord b i) = mnemonicWord b i"
  using mnemonicWord_nth [of b i] wordList_TrimSpace by auto

lemma mnemonicWord_index:
  "wordIndexes (ToLower (mnemonicWord b i)) = Some (of_nat (2 * unat b + i mod 2))"
proof -
  have "2 * unat b + i mod 2 < 512"
    using unat_byte_less [of b] by (simp add: mod_less_divisor [of 2 i, THEN less_le_trans])
  then show ?thesis
    by (simp only: mnemonicWord_def wordIndexes_nth)
qed

lemma EncodeMnemonic_loop_eq:
  "EncodeMnemonic_loop bs (int i) buf = Inr (buf @ concat (map spaced (enumerate i bs)))"
proof (induction bs arbitrary: i buf)
  case Nil
  then show ?case by simp
next
  case (Cons b bs)
  have "int i + 1 = int (Suc i)" by simp
  then show ?case
    by (simp only: EncodeMnemonic_loop.simps ByteToMnemonic_nat Cons.IH Let_def)
       (simp add: spaced_def)
qed

lemma spaced_0: "spaced (0, b) = mnemonicWord b 0"
  by (simp add: spaced_def)

lemma concat_spaced_Suc:
  "concat (map spaced (enumerate (Suc i) bs)) =
   concat (map ((#) (CHR '' '')) (map (\<lambda>(j, b). mnemonicWord b j) (enumerate (Suc i) bs)))"
  by (induction bs arbitrary: i) (simp_all add: spaced_def)

lemma EncodeMnemonic_eq:
  "EncodeMnemonic seed =
     Inr (concat (map spaced (enumerate 0 seed)) @ '' ''
          @ mnemonicWord (checksumByte seed) (length seed))"
  using EncodeMnemonic_loop_eq [of seed 0 "[]"]
  by (simp add: EncodeMnemonic_def ByteToMnemonic_nat Let_def)

lemma EncodeMnemonic_Nil:
  "EncodeMnemonic [] = Inr (CHR '' '' # mnemonicWord (checksumByte []) 0)"
  by (simp add: EncodeMnemonic_eq)

lemma EncodeMnemonic_Join:
  assumes "seed \<noteq> []"
  shows "EncodeMnemonic seed = Inr (Join (mnemonicWords seed) (CHR '' ''))"
proof -
  from assms obtain b bs where seed: "seed = b # bs" by (cases seed) auto
  have "mnemonicWords seed =
          mnemonicWord b 0 # map (\<lambda>(j, b). mnemonicWord b j) (enumerate (Suc 0) bs)
          @ [mnemonicWord (checksumByte seed) (length seed)]"
    by (simp add: mnemonicWords_def seed enumerate_append_eq)
  then show ?thesis
    by (simp add: EncodeMnemonic_eq Join_Cons seed spaced_0 concat_spaced_Suc)
qed

lemma length_mnemonicWords: "length (mnemonicWords seed) = Suc (length seed)"
  by (simp add: mnemonicWords_def)

lemma mnemonicWords_chars:
  "w \<in> set (mnemonicWords seed) \<Longrightarrow> w \<noteq> [] \<and> (\<forall>c\<in>set w. digit6 c) \<and> length w < 32"
  using mnemonicWord_chars by (auto simp: mnemonicWords_def)

lemma DecodeMnemonics_loop_step:
  assumes "i < length d"
  shows "DecodeMnemonics_loop (mnemonicWord b i # ws) d i = DecodeMnemonics_loop ws (d[i := b]) (Suc i)"
proof -
  define k :: uint16 where "k = of_nat (2 * unat b + i mod 2)"
  have p: "i mod 2 < 2" by simp
  have "wordIndexes (ToLower (mnemonicWord b i)) = Some k"
    by (simp only: k_def mnemonicWord_index)
  moreover have "unat (k mod 2) = i mod 2"
    by (simp only: k_def index_mod [OF p])
  moreover have "ucast (k div 2) = b"
    by (simp only: k_def index_div [OF p])
  ultimately show ?thesis
    using assms mnemonicWord_chars(1) [of b i]
    by (simp add: mnemonicWord_TrimSpace)
qed

lemma DecodeMnemonics_loop_words:
  "i + length bs \<le> length d \<Longrightarrow>
   DecodeMnemonics_loop (map (\<lambda>(j, b). mnemonicWord b j) (enumerate i bs)) d i =
     Inr (take i d @ bs @ drop (i + length bs) d, i + length bs)"
proof (induction bs arbitrary: i d)
  case Nil
  then show ?case by simp
next
  case (Cons b bs)
  from Cons.prems have i: "i < length d" by simp
  have "take (Suc i) (d[i := b]) = take i d @ [b]"
    using i by (simp add: take_Suc_conv_app_nth)
  moreover have "drop (Suc i + length bs) (d[i := b]) = drop (Suc i + length bs) d"
    by simp
  ultimately show ?case
    using Cons.prems Cons.IH [of "Suc i" "d[i := b]"]
    by (simp add: DecodeMnemonics_loop_step [OF i] del: DecodeMnemonics_loop.simps)
qed

lemma DecodeMnemonics_words:
  "DecodeMnemonics (map (\<lambda>(j, b). mnemonicWord b j) (enumerate 0 bs)) = Inr bs"
  using DecodeMnemonics_loop_words [of 0 bs "replicate (length bs) 0"]
  by (simp add: DecodeMnemonics_def)

lemma DecodeMnemonics_mnemonicWords:
  "DecodeMnemonics (mnemonicWords seed) = Inr (seed @ [checksumByte seed])"
  by (simp only: mnemonicWords_def DecodeMnemonics_words)

lemma DecodeMnemonics_odd_first:
  assumes "odd i"
  shows "DecodeMnemonics (mnemonicWord b i # ws) =
           Inl (E op_DecodeMnemonics Encoding (Err (NotValidAtPosition (mnemonicWord b i) 0)))"
proof -
  define k :: uint16 where "k = of_nat (2 * unat b + i mod 2)"
  have p: "i mod 2 < 2" by simp
  from assms have "i mod 2 = 1" by presburger
  moreover have "wordIndexes (ToLower (mnemonicWord b i)) = Some k"
    by (simp only: k_def mnemonicWord_index)
  moreover have "unat (k mod 2) = i mod 2"
    by (simp only: k_def index_mod [OF p])
  ultimately show ?thesis
    using mnemonicWord_chars(1) [of b i]
    by (simp add: DecodeMnemonics_def mnemonicWord_TrimSpace)
qed

lemma hd_Join: "ws \<noteq> [] \<Longrightarrow> hd ws \<noteq> [] \<Longrightarrow> hd (Join ws sep) = hd (hd ws)"
  by (cases ws) (auto simp: Join_Cons)

lemma Join_eq_Nil: "Join ws sep = [] \<Longrightarrow> ws = [] \<or> ws = [[]]"
  by (induction ws sep rule: Join.induct) auto

lemma last_Join:
  "ws \<noteq> [] \<Longrightarrow> last ws \<noteq> [] \<Longrightarrow> last (Join ws sep) = last (last ws)"
proof (induction ws sep rule: Join.induct)
  case (1 sep)
  then show ?case by simp
next
  case (2 w sep)
  then show ?case by simp
next
  case (3 w v ws sep)
  from "3.prems" have "Join (v # ws) sep \<noteq> []"
    using Join_eq_Nil [of "v # ws" sep] by auto
  with 3 show ?case by simp
qed

lemma words_TrimSpace_Join:
  assumes "ws \<noteq> []" and "\<forall>w\<in>set ws. w \<noteq> [] \<and> (\<forall>c\<in>set w. digit6 c)"
  shows "TrimSpace (Join ws (CHR '' '')) = Join ws (CHR '' '')"
proof (rule TrimSpace_id, rule disjI2, rule conjI)
  from assms have h: "hd ws \<noteq> []" and l: "last ws \<noteq> []" by auto
  from assms h have "digit6 (hd (hd ws))" by (meson hd_in_set)
  then show "\<not> isSpace (hd (Join ws (CHR '' '')))"
    using assms(1) h by (simp add: hd_Join digit6_not_isSpace)
  from assms l have "digit6 (last (last ws))" by (meson last_in_set)
  then show "\<not> isSpace (last (Join ws (CHR '' '')))"
    using assms(1) l by (simp add: last_Join digit6_not_isSpace)
qed

lemma words_Split_Join:
  assumes "ws \<noteq> []" and "\<forall>w\<in>set ws. w \<noteq> [] \<and> (\<forall>c\<in>set w. digit6 c)"
  shows "Split (Join ws (CHR '' '')) (CHR '' '') = ws"
proof (rule Split_Join [OF assms(1)])
  show "\<forall>w\<in>set ws. CHR '' '' \<notin> set w"
    using assms(2) by (metis digit6_not_isSpace isSpace_def)
qed

lemma DecodeUserInput_Join:
  assumes "ws \<noteq> []" and "\<forall>w\<in>set ws. w \<noteq> [] \<and> (\<forall>c\<in>set w. digit6 c)"
  shows "DecodeUserInput (Join ws (CHR '' '')) = DecodeUserInput_words ws"
  by (simp add: DecodeUserInput_def words_TrimSpace_Join [OF assms] words_Split_Join [OF assms])

lemma DecodeUserInput_switch_mnemonicWords:
  assumes "seed \<noteq> []"
  shows "DecodeUserInput_switch (mnemonicWords seed) = Inr seed"
  using assms
  by (simp add: DecodeUserInput_switch_def length_mnemonicWords DecodeMnemonics_mnemonicWords)

text \<open>
  The checksum byte of the empty seed, by evaluation of the two hashes, and the words
  the examples use.
\<close>

lemma checksumByte_Nil: "checksumByte [] = 0x5D"
  by code_simp

lemma wordList_first: "wordList ! 0 = ''aardvark''" "wordList ! Suc 0 = ''adroitness''"
  by (simp_all add: wordList_lines AlternatingWords_lines_def)



lemma wordList_186: "wordList ! 186 = ''exceed''"
  by (simp add: wordList_lines AlternatingWords_lines_def)

lemma ByteToMnemonic_zero:
  "ByteToMnemonic 0 0 = Inr ''aardvark''" "ByteToMnemonic 0 1 = Inr ''adroitness''"
  using ByteToMnemonic_nat [of 0 0] ByteToMnemonic_nat [of 0 1]
  by (simp_all add: mnemonicWord_def wordList_first)

section \<open>The words that \<open>DecodeUserInput\<close> passes on\<close>









section \<open>The claims about the codec\<close>

text \<open>
  C10. The word list built from \<open>AlternatingWords\<close> has exactly 512 entries. For every
  byte \<open>b\<close> and position \<open>i\<close> the index \<open>2 * b + i mod 2\<close> is at most 511 and
  \<open>ByteToMnemonic\<close> returns the word at that index; for every \<open>int\<close> index, negative
  ones too, \<open>ByteToMnemonic\<close> returns a word and does not panic.
\<close>

theorem wordList_512_ByteToMnemonic_total:
  "length wordList = 512 \<and>
   (\<forall>b i. 2 * unat b + i mod 2 \<le> 511 \<and>
          ByteToMnemonic b (int i) = Inr (wordList ! (2 * unat b + i mod 2))) \<and>
   (\<forall>b index. \<exists>w. ByteToMnemonic b index = Inr w)"
proof (intro conjI allI)
  show "length wordList = 512" by (rule length_wordList)
next
  fix b :: byte and i :: nat
  have "i mod 2 \<le> 1" by simp
  then show "2 * unat b + i mod 2 \<le> 511"
    using unat_byte_less [of b] by linarith
  show "ByteToMnemonic b (int i) = Inr (wordList ! (2 * unat b + i mod 2))"
    by (simp only: ByteToMnemonic_nat mnemonicWord_def)
next
  fix b :: byte and index :: int
  show "\<exists>w. ByteToMnemonic b index = Inr w"
    by (simp only: ByteToMnemonic_index) blast
qed

text \<open>
  C1. For every seed \<open>s\<close> whose length is within the bounds of \<open>hdkeychain\<close>,
  \<open>EncodeMnemonic s\<close> returns a phrase and \<open>DecodeUserInput\<close> of that phrase returns
  exactly \<open>s\<close>: the checksum word is verified and stripped.
\<close>

theorem DecodeUserInput_EncodeMnemonic:
  assumes "MinSeedBytes \<le> length s" and "length s \<le> MaxSeedBytes"
  shows "\<exists>phrase. EncodeMnemonic s = Inr phrase \<and> DecodeUserInput phrase = Inr s"
proof -
  from assms(1) have ne: "s \<noteq> []" by (auto simp: MinSeedBytes_def)
  let ?ws = "mnemonicWords s"
  have ws: "?ws \<noteq> []" "\<forall>w\<in>set ?ws. w \<noteq> [] \<and> (\<forall>c\<in>set w. digit6 c)"
    using length_mnemonicWords [of s] mnemonicWords_chars [of _ s] by auto
  have "DecodeUserInput (Join ?ws (CHR '' '')) = DecodeUserInput_words ?ws"
    by (rule DecodeUserInput_Join [OF ws])
  also have "\<dots> = Inr s"
    using assms by (simp add: DecodeUserInput_words_def DecodeUserInput_switch_mnemonicWords [OF ne])
  finally show ?thesis
    using EncodeMnemonic_Join [OF ne] by blast
qed

theorem DecodeUserInput_EncodeMnemonic_witness:
  "MinSeedBytes \<le> length (replicate 16 (0 :: byte)) \<and>
   length (replicate 16 (0 :: byte)) \<le> MaxSeedBytes \<and>
   (\<exists>phrase. EncodeMnemonic (replicate 16 0) = Inr phrase
             \<and> DecodeUserInput phrase = Inr (replicate 16 0))"
  using DecodeUserInput_EncodeMnemonic [of "replicate 16 0"]
  by (simp add: MinSeedBytes_def MaxSeedBytes_def)

text \<open>
  C3, as the specification states it: \<open>DecodeUserInput("deadbeef")\<close> returns the four
  bytes \<open>DE AD BE EF\<close>. It does not.
\<close>

theorem DecodeUserInput_deadbeef_not_returned:
  "DecodeUserInput ''deadbeef'' \<noteq> Inr [0xDE, 0xAD, 0xBE, 0xEF]"
  by (simp add: DecodeUserInput_def DecodeUserInput_words_def DecodeUserInput_switch_def
        TrimSpace_def isSpace_def fromHexChar_def MinSeedBytes_def)

text \<open>
  C3, amended. The single token \<open>deadbeef\<close> is decoded as hexadecimal to the four bytes
  \<open>DE AD BE EF\<close> by the first case of the \<open>switch\<close>, which does not call
  \<open>DecodeMnemonics\<close>; the four bytes are fewer than \<open>MinSeedBytes\<close>, and
  \<open>DecodeUserInput\<close> returns the encoding error \<open>ErrInvalidSeedLen\<close>.
\<close>

theorem DecodeUserInput_deadbeef:
  "Split (TrimSpace ''deadbeef'') (CHR '' '') = [''deadbeef''] \<and>
   hex_DecodeString ''deadbeef'' = Inr [0xDE, 0xAD, 0xBE, 0xEF] \<and>
   DecodeUserInput_switch [''deadbeef''] = Inr [0xDE, 0xAD, 0xBE, 0xEF] \<and>
   DecodeUserInput ''deadbeef'' = Inl (E op_DecodeUserInput Encoding (Err ErrInvalidSeedLen))"
  by (simp add: DecodeUserInput_def DecodeUserInput_words_def DecodeUserInput_switch_def
        TrimSpace_def isSpace_def fromHexChar_def MinSeedBytes_def)

text \<open>
  C4, at the empty seed. The only word is the checksum word \<open>exceed\<close> (the checksum
  byte of the empty seed is \<open>0x5D\<close>), and the words joined by single spaces are
  \<open>exceed\<close>. \<open>EncodeMnemonic\<close> writes nothing in its loop and then the space that
  precedes the checksum word, so it returns \<open>exceed\<close> with a space in front.
\<close>

theorem EncodeMnemonic_empty_seed:
  "EncodeMnemonic [] = Inr '' exceed'' \<and>
   Join (mnemonicWords []) (CHR '' '') = ''exceed'' \<and>
   EncodeMnemonic [] \<noteq> Inr (Join (mnemonicWords []) (CHR '' ''))"
  by (simp add: EncodeMnemonic_Nil mnemonicWords_def mnemonicWord_def checksumByte_Nil
        wordList_186)

text \<open>
  C5. When the phrase of a seed has at least two words, the phrase without its first
  word is rejected: \<open>DecodeMnemonics\<close> fails at position 0 with the parity error for
  the word that was second, and \<open>DecodeUserInput\<close> returns an encoding error.
\<close>

theorem remove_first_word_detected:
  assumes "EncodeMnemonic seed = Inr phrase" and "2 \<le> length (phraseWords phrase)"
  shows "DecodeMnemonics (tl (Split phrase (CHR '' ''))) =
           Inl (E op_DecodeMnemonics Encoding
                  (Err (NotValidAtPosition (Split phrase (CHR '' '') ! 1) 0))) \<and>
         (\<exists>e. DecodeUserInput (removeWord 0 phrase) = Inl (E op_DecodeUserInput Encoding e))"
proof (cases seed)
  case Nil
  let ?w = "mnemonicWord (checksumByte []) 0"
  have "CHR '' '' \<notin> set ?w"
    using mnemonicWord_chars(2) [of "checksumByte []" 0] by (metis digit6_not_isSpace isSpace_def)
  then have "Split (CHR '' '' # ?w) (CHR '' '') = [[], ?w]"
    by (simp add: Split_no_sep)
  with assms Nil have False
    by (simp add: EncodeMnemonic_Nil phraseWords_def split: if_splits)
  then show ?thesis ..
next
  case (Cons b bs)
  let ?ws = "mnemonicWords seed"
  let ?rest = "map (\<lambda>(j, b). mnemonicWord b j) (enumerate 2 (tl (bs @ [checksumByte seed])))"
  let ?b1 = "hd (bs @ [checksumByte seed])"
  have ok: "\<forall>w\<in>set ?ws. w \<noteq> [] \<and> (\<forall>c\<in>set w. digit6 c)"
    using mnemonicWords_chars [of _ seed] by auto
  have phrase: "phrase = Join ?ws (CHR '' '')"
    using assms(1) EncodeMnemonic_Join [of seed] Cons by simp
  have split: "Split phrase (CHR '' '') = ?ws"
    unfolding phrase using length_mnemonicWords [of seed] ok by (intro words_Split_Join) auto
  have ws: "?ws = mnemonicWord b 0 # mnemonicWord ?b1 1 # ?rest"
    by (cases bs) (simp_all add: mnemonicWords_def Cons numeral_2_eq_2)
  have decode: "DecodeMnemonics (tl ?ws) =
      Inl (E op_DecodeMnemonics Encoding (Err (NotValidAtPosition (mnemonicWord ?b1 1) 0)))"
    unfolding ws list.sel by (rule DecodeMnemonics_odd_first) simp
  have tl_ok: "tl ?ws \<noteq> []" "\<forall>w\<in>set (tl ?ws). w \<noteq> [] \<and> (\<forall>c\<in>set w. digit6 c)"
    using ok by (simp_all add: ws)
  have removed: "removeWord 0 phrase = Join (tl ?ws) (CHR '' '')"
    by (simp add: removeWord_def split drop_Suc)
  have "\<exists>e. DecodeUserInput_words (tl ?ws) = Inl (E op_DecodeUserInput Encoding e)"
  proof (cases "?rest = []")
    case True
    then have one: "tl ?ws = [mnemonicWord ?b1 1]" by (simp add: ws)
    show ?thesis
    proof (cases "hex_DecodeString (mnemonicWord ?b1 1)")
      case (Inl err)
      then show ?thesis
        by (simp add: one DecodeUserInput_words_def DecodeUserInput_switch_def)
    next
      case (Inr bytes)
      then have "length bytes < 16"
        using hex_DecodeString_length [OF Inr] mnemonicWord_chars(3) [of ?b1 1] by simp
      with Inr show ?thesis
        by (simp add: one DecodeUserInput_words_def DecodeUserInput_switch_def MinSeedBytes_def)
    qed
  next
    case False
    then have "length (tl ?ws) > 1" by (cases ?rest) (simp_all add: ws)
    then show ?thesis
      using decode by (simp add: DecodeUserInput_words_def DecodeUserInput_switch_def)
  qed
  then have "\<exists>e. DecodeUserInput (removeWord 0 phrase) = Inl (E op_DecodeUserInput Encoding e)"
    by (simp only: removed DecodeUserInput_Join [OF tl_ok])
  moreover have "Split phrase (CHR '' '') ! 1 = mnemonicWord ?b1 1"
    by (simp add: split ws)
  ultimately show ?thesis
    using decode by (simp only: split)
qed

theorem remove_first_word_detected_witness:
  "EncodeMnemonic [0] = Inr (Join (mnemonicWords [0]) (CHR '' '')) \<and>
   2 \<le> length (phraseWords (Join (mnemonicWords [0]) (CHR '' ''))) \<and>
   DecodeMnemonics (tl (Split (Join (mnemonicWords [0]) (CHR '' '')) (CHR '' ''))) =
     Inl (E op_DecodeMnemonics Encoding
            (Err (NotValidAtPosition (Split (Join (mnemonicWords [0]) (CHR '' '')) (CHR '' '') ! 1) 0))) \<and>
   (\<exists>e. DecodeUserInput (removeWord 0 (Join (mnemonicWords [0]) (CHR '' ''))) =
          Inl (E op_DecodeUserInput Encoding e))"
proof -
  let ?ws = "mnemonicWords [0]"
  have enc: "EncodeMnemonic [0] = Inr (Join ?ws (CHR '' ''))"
    by (rule EncodeMnemonic_Join) simp
  have ok: "\<forall>w\<in>set ?ws. w \<noteq> [] \<and> (\<forall>c\<in>set w. digit6 c)"
    using mnemonicWords_chars [of _ "[0]"] by auto
  have "Split (Join ?ws (CHR '' '')) (CHR '' '') = ?ws"
    using length_mnemonicWords [of "[0]"] ok by (intro words_Split_Join) auto
  then have "phraseWords (Join ?ws (CHR '' '')) = ?ws"
    using ok by (simp add: phraseWords_def filter_id_conv)
  then have two: "2 \<le> length (phraseWords (Join ?ws (CHR '' '')))"
    by (simp add: length_mnemonicWords)
  show ?thesis
    using enc two remove_first_word_detected [OF enc two] by blast
qed




section \<open>The claims about the seed vault\<close>

lemma fromHexChar_hextable: "n < 16 \<Longrightarrow> fromHexChar (hextable ! n) = Some (of_nat n)"
proof -
  have "list_all (\<lambda>n. fromHexChar (hextable ! n) = Some (of_nat n)) [0..<16]"
    by (simp add: upt_rec hextable_def fromHexChar_def)
  then show "n < 16 \<Longrightarrow> fromHexChar (hextable ! n) = Some (of_nat n)"
    by (simp add: list_all_iff)
qed

lemma hex_Decode_Encode: "hex_DecodeString (hex_EncodeToString bs) = Inr bs"
proof (induction bs)
  case Nil
  then show ?case by (simp add: hex_EncodeToString_def)
next
  case (Cons v bs)
  have "hex_EncodeToString (v # bs) =
          hextable ! unat (drop_bit 4 v) # hextable ! unat (v AND 0x0f) # hex_EncodeToString bs"
    by (simp add: hex_EncodeToString_def)
  then show ?case
    using Cons.IH by (simp add: fromHexChar_hextable nibble_lt nibbles)
qed

lemma length_hex_EncodeToString: "length (hex_EncodeToString bs) = 2 * length bs"
  by (induction bs) (simp_all add: hex_EncodeToString_def)

lemma scrypt_Key_ok:
  "scrypt_Key prim pass [] (2 ^ 15) 8 1 32 =
     Inr (map (scrypt_stream prim pass [] (2 ^ 15) 8 1) [0..<32])"
  by (simp add: scrypt_Key_def maxInt_def signed_divide_int_def)

lemma naclLoadFromPass_ok:
  "naclLoadFromPass prim pass = Inr (map (scrypt_stream prim pass [] (2 ^ 15) 8 1) [0..<32])"
  by (simp only: naclLoadFromPass_def scrypt_Key_ok sum.case EncodeHex_def nacl_Load_def
        length_hex_EncodeToString hex_Decode_Encode KeySize_def)
     simp

lemma stream_twice:
  "map (\<lambda>(i, m). m XOR k (n + i)) (enumerate j (map (\<lambda>(i, m). m XOR k (n + i)) (enumerate j msg)))
   = (msg :: byte list)"
  by (induction msg arbitrary: j) (simp_all add: xor.assoc)

lemma secretbox_stream_twice:
  "secretbox_stream prim key nonce (secretbox_stream prim key nonce msg) = msg"
  unfolding secretbox_stream_def by (rule stream_twice)

lemma length_secretbox_tag: "length (secretbox_tag prim key nonce c) = TagSize"
  by (simp add: secretbox_tag_def)

lemma secretbox_Open_Seal:
  "secretbox_Open prim (secretbox_Seal prim message nonce key) nonce key = Some message"
  by (simp add: secretbox_Open_def secretbox_Seal_def Let_def length_secretbox_tag
        secretbox_stream_twice)

lemma EasyOpen_EasySeal:
  "length nonce = NonceSize \<Longrightarrow> EasyOpen prim (EasySeal prim nonce message key) key = Inr message"
  by (simp add: EasyOpen_def EasySeal_def secretbox_Open_Seal)

lemma string_of_bytes_of_string: "string_of_bytes (bytes_of_string s) = s"
  by (induction s) (simp_all add: string_of_bytes_def bytes_of_string_def string_round)

text \<open>
  C6. For every passphrase \<open>p\<close>, seed string \<open>v\<close> and nonce of 24 bytes drawn by
  \<open>EasySeal\<close>, \<open>encryptWalletSeed\<close> returns no error, and \<open>decryptWalletSeed\<close> of its
  result under the same passphrase returns \<open>v\<close> and no error. This holds for every
  choice of the three primitives.
\<close>

theorem decrypt_encrypt_WalletSeed:
  assumes "length nonce = NonceSize"
  shows "snd (encryptWalletSeed prim nonce p v) = None \<and>
         decryptWalletSeed prim p (fst (encryptWalletSeed prim nonce p v)) = (v, None)"
  using assms
  by (simp add: encryptWalletSeed_def decryptWalletSeed_def decryptWalletSeed_with_def
        naclLoadFromPass_ok EasyOpen_EasySeal string_of_bytes_of_string)

theorem decrypt_encrypt_WalletSeed_witness:
  "length (replicate 24 (0 :: byte)) = NonceSize \<and>
   snd (encryptWalletSeed
          \<lparr>scrypt_stream = \<lambda>pw salt N r p i. 0, xsalsa20 = \<lambda>key nonce i. 0, poly1305 = \<lambda>m key i. 0\<rparr>
          (replicate 24 0) [1, 2, 3] ''seed'') = None \<and>
   decryptWalletSeed
     \<lparr>scrypt_stream = \<lambda>pw salt N r p i. 0, xsalsa20 = \<lambda>key nonce i. 0, poly1305 = \<lambda>m key i. 0\<rparr>
     [1, 2, 3]
     (fst (encryptWalletSeed
             \<lparr>scrypt_stream = \<lambda>pw salt N r p i. 0, xsalsa20 = \<lambda>key nonce i. 0, poly1305 = \<lambda>m key i. 0\<rparr>
             (replicate 24 0) [1, 2, 3] ''seed''))
   = (''seed'', None)"
  using decrypt_encrypt_WalletSeed
          [of "replicate 24 0"
              "\<lparr>scrypt_stream = \<lambda>pw salt N r p i. 0, xsalsa20 = \<lambda>key nonce i. 0, poly1305 = \<lambda>m key i. 0\<rparr>"
              "[1, 2, 3]" "''seed''"]
  by (simp add: NonceSize_def)

text \<open>
  C7. Once the key is loaded, every failure of \<open>EasyOpen\<close> (a box shorter than the nonce,
  or one that \<open>secretbox.Open\<close> rejects: wrong key, changed ciphertext, changed
  authenticator) makes \<open>decryptWalletSeed\<close> return the empty string and
  \<open>ErrInvalidPassphrase\<close>, whatever the error of \<open>EasyOpen\<close> was. An error of
  \<open>naclLoadFromPass\<close> is returned as it is, with the empty string, and is not
  \<open>ErrInvalidPassphrase\<close>.
\<close>

theorem decryptWalletSeed_errors:
  "(\<forall>key err. EasyOpen prim encryptedSeed key = Inl err \<longrightarrow>
      decryptWalletSeed_with prim (Inr key) encryptedSeed = ([], Some ErrInvalidPassphrase)) \<and>
   (\<forall>err. decryptWalletSeed_with prim (Inl err) encryptedSeed = ([], Some (DerivationError err))
          \<and> DerivationError err \<noteq> ErrInvalidPassphrase) \<and>
   (\<forall>key. naclLoadFromPass prim pass = Inr key \<longrightarrow>
      (\<forall>err. EasyOpen prim encryptedSeed key = Inl err \<longrightarrow>
         decryptWalletSeed prim pass encryptedSeed = ([], Some ErrInvalidPassphrase)))"
  by (simp add: decryptWalletSeed_def decryptWalletSeed_with_def)

theorem decryptWalletSeed_errors_witness:
  "naclLoadFromPass
     \<lparr>scrypt_stream = \<lambda>pw salt N r p i. 0, xsalsa20 = \<lambda>key nonce i. 0, poly1305 = \<lambda>m key i. 0\<rparr>
     [1, 2, 3] = Inr (replicate 32 0) \<and>
   EasyOpen
     \<lparr>scrypt_stream = \<lambda>pw salt N r p i. 0, xsalsa20 = \<lambda>key nonce i. 0, poly1305 = \<lambda>m key i. 0\<rparr>
     (replicate 24 0 @ replicate 16 1 @ [7]) (replicate 32 0) = Inl CouldNotDecrypt \<and>
   decryptWalletSeed
     \<lparr>scrypt_stream = \<lambda>pw salt N r p i. 0, xsalsa20 = \<lambda>key nonce i. 0, poly1305 = \<lambda>m key i. 0\<rparr>
     [1, 2, 3] (replicate 24 0 @ replicate 16 1 @ [7]) = ([], Some ErrInvalidPassphrase)"
proof -
  let ?prim = "\<lparr>scrypt_stream = \<lambda>pw salt N r p i. 0, xsalsa20 = \<lambda>key nonce i. 0,
                 poly1305 = \<lambda>m key i. 0\<rparr> :: primitives"
  let ?box = "replicate 24 0 @ replicate 16 1 @ [7] :: byte list"
  have k: "naclLoadFromPass ?prim [1, 2, 3] = Inr (replicate 32 0)"
    by (simp add: naclLoadFromPass_ok map_replicate_const)
  have o: "EasyOpen ?prim ?box (replicate 32 0) = Inl CouldNotDecrypt"
    by (simp add: EasyOpen_def NonceSize_def secretbox_Open_def TagSize_def secretbox_tag_def
          map_replicate_const)
  show ?thesis
    using k o decryptWalletSeed_errors [of ?prim ?box "[1, 2, 3]"] by blast
qed

section \<open>The claims about the transactional batch\<close>

lemma batchDbTransaction_begin_fails:
  "begin_answer db = Inl err \<Longrightarrow> batchDbTransaction db dbOp = ([Begin], Returns (Some err))"
  by (simp add: batchDbTransaction_def)

lemma batchDbTransaction_ok:
  "begin_answer db = Inr tx \<Longrightarrow> dbOp tx = Returns None \<Longrightarrow>
   batchDbTransaction db dbOp = ([Begin, Commit], Returns (commit_answer db))"
  by (simp add: batchDbTransaction_def batch_deferred_def)

lemma batchDbTransaction_error:
  "begin_answer db = Inr tx \<Longrightarrow> dbOp tx = Returns (Some err) \<Longrightarrow>
   batchDbTransaction db dbOp = ([Begin, Rollback], Returns (Some err))"
  by (simp add: batchDbTransaction_def batch_deferred_def)

lemma batchDbTransaction_panic:
  "begin_answer db = Inr tx \<Longrightarrow> dbOp tx = Panics v \<Longrightarrow>
   batchDbTransaction db dbOp = ([Begin, Rollback], Panics v)"
  by (simp add: batchDbTransaction_def batch_deferred_def)

text \<open>
  C2. \<open>batchDbTransaction\<close> calls \<open>Commit\<close> exactly when the transaction has begun and
  \<open>dbOp\<close> returns \<open>nil\<close> without a panic. When \<open>dbOp\<close> returns an error, \<open>Rollback\<close> is
  called and that error is returned; when \<open>dbOp\<close> panics, \<open>Rollback\<close> is called and the
  panic goes on with the same value; when \<open>dbOp\<close> returns \<open>nil\<close>, what \<open>Commit\<close> returns
  is returned, an error of \<open>Commit\<close> too.
\<close>

theorem batchDbTransaction_commit_iff:
  "(Commit \<in> set (fst (batchDbTransaction db dbOp)) \<longleftrightarrow>
      (\<exists>tx. begin_answer db = Inr tx \<and> dbOp tx = Returns None)) \<and>
   (\<forall>tx err. begin_answer db = Inr tx \<and> dbOp tx = Returns (Some err) \<longrightarrow>
      batchDbTransaction db dbOp = ([Begin, Rollback], Returns (Some err))) \<and>
   (\<forall>tx v. begin_answer db = Inr tx \<and> dbOp tx = Panics v \<longrightarrow>
      batchDbTransaction db dbOp = ([Begin, Rollback], Panics v)) \<and>
   (\<forall>tx. begin_answer db = Inr tx \<and> dbOp tx = Returns None \<longrightarrow>
      batchDbTransaction db dbOp = ([Begin, Commit], Returns (commit_answer db)))"
proof (intro conjI allI impI)
  show "Commit \<in> set (fst (batchDbTransaction db dbOp)) \<longleftrightarrow>
        (\<exists>tx. begin_answer db = Inr tx \<and> dbOp tx = Returns None)"
  proof (cases "begin_answer db")
    case (Inl err)
    then show ?thesis by (simp add: batchDbTransaction_begin_fails)
  next
    case (Inr tx)
    show ?thesis
    proof (cases "dbOp tx")
      case (Returns r)
      with Inr show ?thesis
        by (cases r) (simp_all add: batchDbTransaction_ok batchDbTransaction_error)
    next
      case (Panics v)
      with Inr show ?thesis by (simp add: batchDbTransaction_panic)
    qed
  qed
qed (auto simp: batchDbTransaction_ok batchDbTransaction_error batchDbTransaction_panic)

theorem batchDbTransaction_commit_iff_witness:
  "batchDbTransaction \<lparr>begin_answer = Inr (1 :: nat), commit_answer = Some ''disk full'',
       rollback_answer = None\<rparr> (\<lambda>tx. Returns None :: (string, string) outcome)
     = ([Begin, Commit], Returns (Some ''disk full'')) \<and>
   batchDbTransaction \<lparr>begin_answer = Inr (1 :: nat), commit_answer = None,
       rollback_answer = None\<rparr> (\<lambda>tx. Returns (Some ''no such bucket'') :: (string, string) outcome)
     = ([Begin, Rollback], Returns (Some ''no such bucket'')) \<and>
   batchDbTransaction \<lparr>begin_answer = Inr (1 :: nat), commit_answer = (None :: string option),
       rollback_answer = None\<rparr> (\<lambda>tx. Panics ''nil map'' :: (string, string) outcome)
     = ([Begin, Rollback], Panics ''nil map'')"
  using
    batchDbTransaction_commit_iff
      [of "\<lparr>begin_answer = Inr (1 :: nat), commit_answer = Some ''disk full'',
             rollback_answer = None\<rparr>" "\<lambda>tx. Returns None :: (string, string) outcome"]
    batchDbTransaction_commit_iff
      [of "\<lparr>begin_answer = Inr (1 :: nat), commit_answer = None, rollback_answer = None\<rparr>"
          "\<lambda>tx. Returns (Some ''no such bucket'') :: (string, string) outcome"]
    batchDbTransaction_commit_iff
      [of "\<lparr>begin_answer = Inr (1 :: nat), commit_answer = (None :: string option),
             rollback_answer = None\<rparr>" "\<lambda>tx. Panics ''nil map'' :: (string, string) outcome"]
  by simp

text \<open>
  C9, as the specification states it: a failure of \<open>Rollback\<close> reaches the caller. It
  does not: when \<open>dbOp\<close> fails and \<open>Rollback\<close> fails too, the caller gets the error of
  \<open>dbOp\<close> only, the same result as when \<open>Rollback\<close> succeeds.
\<close>

theorem rollback_failure_discarded:
  "batchDbTransaction
     \<lparr>begin_answer = Inr (1 :: nat), commit_answer = None, rollback_answer = Some ''rollback failed''\<rparr>
     (\<lambda>tx. Returns (Some ''operation failed'') :: (string, string) outcome)
   = ([Begin, Rollback], Returns (Some ''operation failed'')) \<and>
   batchDbTransaction
     \<lparr>begin_answer = Inr (1 :: nat), commit_answer = None, rollback_answer = Some ''rollback failed''\<rparr>
     (\<lambda>tx. Returns (Some ''operation failed'') :: (string, string) outcome)
   = batchDbTransaction
       \<lparr>begin_answer = Inr (1 :: nat), commit_answer = None, rollback_answer = None\<rparr>
       (\<lambda>tx. Returns (Some ''operation failed''))"
  by (simp add: batchDbTransaction_def batch_deferred_def)

text \<open>
  C9, amended. An error of \<open>Begin\<close> is returned to the caller, and so is an error of
  \<open>Commit\<close>. What \<open>Rollback\<close> returns is not used: the calls made and the result of
  \<open>batchDbTransaction\<close> are the same for every answer of \<open>Rollback\<close>.
\<close>

theorem begin_commit_failures_returned:
  "(\<forall>err. begin_answer db = Inl err \<longrightarrow> snd (batchDbTransaction db dbOp) = Returns (Some err)) \<and>
   (\<forall>tx err. begin_answer db = Inr tx \<and> dbOp tx = Returns None \<and> commit_answer db = Some err \<longrightarrow>
      snd (batchDbTransaction db dbOp) = Returns (Some err)) \<and>
   (\<forall>r. batchDbTransaction (db\<lparr>rollback_answer := r\<rparr>) dbOp = batchDbTransaction db dbOp)"
  by (auto simp: batchDbTransaction_def batch_deferred_def split: sum.splits outcome.splits)

theorem begin_commit_failures_returned_witness:
  "snd (batchDbTransaction
          \<lparr>begin_answer = (Inl ''database closed'' :: string + nat), commit_answer = None,
            rollback_answer = None\<rparr>
          (\<lambda>tx. Returns None :: (string, string) outcome))
     = Returns (Some ''database closed'') \<and>
   snd (batchDbTransaction
          \<lparr>begin_answer = Inr (1 :: nat), commit_answer = Some ''disk full'', rollback_answer = None\<rparr>
          (\<lambda>tx. Returns None :: (string, string) outcome))
     = Returns (Some ''disk full'')"
  using
    begin_commit_failures_returned
      [of "\<lparr>begin_answer = (Inl ''database closed'' :: string + nat), commit_answer = None,
             rollback_answer = None\<rparr>" "\<lambda>tx. Returns None :: (string, string) outcome"]
    begin_commit_failures_returned
      [of "\<lparr>begin_answer = Inr (1 :: nat), commit_answer = Some ''disk full'',
             rollback_answer = None\<rparr>" "\<lambda>tx. Returns None :: (string, string) outcome"]
  by simp

end
